theory Spec2Isabelle
  imports Complex_Main
begin

section \<open>JavaScript values\<close>

text \<open>
  A JavaScript string is modelled as the list of its UTF-8 bytes (\<open>string\<close>). The
  Korean texts of the source appear as byte lists; every pattern the code searches for
  (braces, digits, the three error codes) is ASCII, and an ASCII byte never occurs inside
  the encoding of another character, so searching bytes and searching UTF-16 code units
  agree. No definition below takes the length of a string.

  A JavaScript number is a double: a real number that a double represents, or one of
  the three special values. Addition, multiplication and division round their exact
  result to the nearest double, a tie going to the even significand, and overflow to an
  infinity (\<open>to_double\<close> below). The sign of zero is not modelled. A decimal literal of
  the source stands for the decimal it writes, and a count (a length) for its integer:
  an array has fewer than \<open>2^32\<close> elements, and every integer below \<open>2^53\<close> is a
  double.
\<close>

datatype number = Finite real | PosInfinity | NegInfinity | NaN

text \<open>A property that may be missing (\<open>undefined\<close>), \<open>null\<close> or a value.\<close>

datatype 'a field = Absent | Null | Val 'a

fun isFinite :: "number \<Rightarrow> bool" where
  "isFinite (Finite x) = True"
| "isFinite _ = False"

text \<open>The operator \<open>>=\<close>: false as soon as one side is \<open>NaN\<close>.\<close>

fun js_ge :: "number \<Rightarrow> number \<Rightarrow> bool" where
  "js_ge NaN _ = False"
| "js_ge _ NaN = False"
| "js_ge (Finite a) (Finite b) = (b \<le> a)"
| "js_ge PosInfinity _ = True"
| "js_ge _ NegInfinity = True"
| "js_ge (Finite a) PosInfinity = False"
| "js_ge NegInfinity (Finite b) = False"
| "js_ge NegInfinity PosInfinity = False"

definition js_le :: "number \<Rightarrow> number \<Rightarrow> bool" where
  "js_le a b = js_ge b a"

text \<open>The nearest integer, a tie going to the even one.\<close>

definition round_half_even :: "real \<Rightarrow> int" where
  "round_half_even y =
     (let f = \<lfloor>y\<rfloor>; d = y - of_int f
      in if d < 1 / 2 then f else if 1 / 2 < d then f + 1
         else if even f then f else f + 1)"

text \<open>
  The binary exponent of a double near \<open>x\<close>, for \<open>x\<close> not negative: the greatest
  \<open>e\<close> from -1022 to 1023 with \<open>2^e \<le> x\<close>, and -1022 when there is none (the
  subnormal range). \<open>exponent_from n\<close> tries \<open>n - 1022\<close> first and goes down.
\<close>

fun exponent_from :: "nat \<Rightarrow> real \<Rightarrow> int" where
  "exponent_from 0 x = - 1022"
| "exponent_from (Suc n) x =
     (if 2 powi (int (Suc n) - 1022) \<le> x then int (Suc n) - 1022 else exponent_from n x)"

definition double_exponent :: "real \<Rightarrow> int" where
  "double_exponent x = exponent_from 2045 \<bar>x\<bar>"

text \<open>Every double is smaller in magnitude than \<open>2^1024\<close>.\<close>

definition double_overflow :: real where
  "double_overflow = 2 powi 1024"

text \<open>
  Rounding a real to a double, as IEEE 754 does in the default mode: the doubles with
  exponent \<open>e\<close> are the multiples of \<open>2^(e - 52)\<close>, the magnitude is rounded to the
  nearest multiple, a tie to the even one, and a result of \<open>2^1024\<close> is an infinity.
\<close>

definition to_double :: "real \<Rightarrow> number" where
  "to_double x =
     (let u = 2 powi (double_exponent x - 52);
          r = u * of_int (round_half_even (\<bar>x\<bar> / u))
      in if double_overflow \<le> r then (if 0 < x then PosInfinity else NegInfinity)
         else Finite (if 0 \<le> x then r else - r))"

fun js_add :: "number \<Rightarrow> number \<Rightarrow> number" where
  "js_add NaN _ = NaN"
| "js_add _ NaN = NaN"
| "js_add (Finite a) (Finite b) = to_double (a + b)"
| "js_add PosInfinity NegInfinity = NaN"
| "js_add NegInfinity PosInfinity = NaN"
| "js_add PosInfinity _ = PosInfinity"
| "js_add NegInfinity _ = NegInfinity"
| "js_add (Finite a) b = b"

fun js_neg :: "number \<Rightarrow> number" where
  "js_neg (Finite a) = Finite (- a)"
| "js_neg PosInfinity = NegInfinity"
| "js_neg NegInfinity = PosInfinity"
| "js_neg NaN = NaN"

text \<open>An infinity scaled by a real factor: \<open>NaN\<close> for 0, else the sign decides.\<close>

definition scale_inf :: "number \<Rightarrow> real \<Rightarrow> number" where
  "scale_inf i a = (if a = 0 then NaN else if 0 < a then i else js_neg i)"

fun js_mul :: "number \<Rightarrow> number \<Rightarrow> number" where
  "js_mul NaN _ = NaN"
| "js_mul _ NaN = NaN"
| "js_mul (Finite a) (Finite b) = to_double (a * b)"
| "js_mul (Finite a) PosInfinity = scale_inf PosInfinity a"
| "js_mul (Finite a) NegInfinity = scale_inf NegInfinity a"
| "js_mul PosInfinity (Finite b) = scale_inf PosInfinity b"
| "js_mul NegInfinity (Finite b) = scale_inf NegInfinity b"
| "js_mul PosInfinity PosInfinity = PosInfinity"
| "js_mul NegInfinity NegInfinity = PosInfinity"
| "js_mul PosInfinity NegInfinity = NegInfinity"
| "js_mul NegInfinity PosInfinity = NegInfinity"

text \<open>
  The operator \<open>/\<close>. A zero divisor gives an infinity with the sign of the dividend,
  and \<open>NaN\<close> for \<open>0 / 0\<close>; every zero divisor of the code below is a length, that is
  \<open>+0\<close>.
\<close>

fun js_div :: "number \<Rightarrow> number \<Rightarrow> number" where
  "js_div NaN _ = NaN"
| "js_div _ NaN = NaN"
| "js_div (Finite a) (Finite b) =
     (if b = 0 then (if a = 0 then NaN else if 0 < a then PosInfinity else NegInfinity)
      else to_double (a / b))"
| "js_div (Finite a) PosInfinity = Finite 0"
| "js_div (Finite a) NegInfinity = Finite 0"
| "js_div PosInfinity (Finite b) = (if 0 \<le> b then PosInfinity else NegInfinity)"
| "js_div NegInfinity (Finite b) = (if 0 \<le> b then NegInfinity else PosInfinity)"
| "js_div PosInfinity _ = NaN"
| "js_div NegInfinity _ = NaN"

text \<open>
  \<open>Math.round\<close>: the nearest integer, a tie going up. The result is exact: it is a
  double whenever the argument is one.
\<close>

fun Math_round :: "number \<Rightarrow> number" where
  "Math_round (Finite x) = Finite (of_int \<lfloor>x + 1 / 2\<rfloor>)"
| "Math_round n = n"

text \<open>Truthiness, as \<open>||\<close>, \<open>!\<close>, \<open>?:\<close> and \<open>if\<close> test it.\<close>

fun truthy_number :: "number \<Rightarrow> bool" where
  "truthy_number (Finite x) = (x \<noteq> 0)"
| "truthy_number NaN = False"
| "truthy_number _ = True"

fun truthy_string :: "string field \<Rightarrow> bool" where
  "truthy_string (Val s) = (s \<noteq> [])"
| "truthy_string _ = False"

fun truthy_number_field :: "number field \<Rightarrow> bool" where
  "truthy_number_field (Val n) = truthy_number n"
| "truthy_number_field _ = False"

text \<open>\<open>x || d\<close> on a string property.\<close>

definition or_string :: "string field \<Rightarrow> string \<Rightarrow> string" where
  "or_string x d = (case x of Val s \<Rightarrow> (if s \<noteq> [] then s else d) | _ \<Rightarrow> d)"

text \<open>\<open>ToNumber\<close> of a numeric property: \<open>undefined\<close> is \<open>NaN\<close>, \<open>null\<close> is 0.\<close>

fun to_number :: "number field \<Rightarrow> number" where
  "to_number Absent = NaN"
| "to_number Null = Finite 0"
| "to_number (Val n) = n"

section \<open>Grade conversion (gradeConversion)\<close>

datatype GradeLevel = excellent | good | average | poor

record GradeInfo =
  level :: GradeLevel
  label :: string
  color :: string
  bgColor :: string
  description :: string

record GradeThresholds =
  th_excellent :: number
  th_good :: number
  th_average :: number

definition gradeThresholds :: GradeThresholds where
  "gradeThresholds =
     \<lparr> th_excellent = Finite 4.2, th_good = Finite 3.4, th_average = Finite 2.6 \<rparr>"

fun gradeInfoMap :: "GradeLevel \<Rightarrow> GradeInfo" where
  "gradeInfoMap excellent =
     \<lparr> level = excellent,
       label = [CHR 0xEC, CHR 0x9A, CHR 0xB0, CHR 0xEC, CHR 0x88, CHR 0x98],
       color = ''text-emerald-600'', bgColor = ''bg-emerald-100'',
       description =
         [CHR 0xEB, CHR 0xAA, CHR 0xA9, CHR 0xED, CHR 0x91, CHR 0x9C] @ '' '' @
         [CHR 0xEB, CHR 0x8B, CHR 0xAC, CHR 0xEC, CHR 0x84, CHR 0xB1, CHR 0xEC,
          CHR 0x9D, CHR 0xB4] @ '' '' @
         [CHR 0xEC, CHR 0x9A, CHR 0xB0, CHR 0xEC, CHR 0x88, CHR 0x98, CHR 0xED,
          CHR 0x95, CHR 0xA8] \<rparr>"
| "gradeInfoMap good =
     \<lparr> level = good,
       label = [CHR 0xEC, CHR 0x96, CHR 0x91, CHR 0xED, CHR 0x98, CHR 0xB8],
       color = ''text-blue-600'', bgColor = ''bg-blue-100'',
       description =
         [CHR 0xEB, CHR 0xAA, CHR 0xA9, CHR 0xED, CHR 0x91, CHR 0x9C, CHR 0xEC,
          CHR 0x97, CHR 0x90] @ '' '' @
         [CHR 0xEA, CHR 0xB7, CHR 0xBC, CHR 0xEC, CHR 0xA0, CHR 0x91, CHR 0xED,
          CHR 0x95, CHR 0xA8] \<rparr>"
| "gradeInfoMap average =
     \<lparr> level = average,
       label = [CHR 0xEB, CHR 0xB3, CHR 0xB4, CHR 0xED, CHR 0x86, CHR 0xB5],
       color = ''text-amber-600'', bgColor = ''bg-amber-100'',
       description =
         [CHR 0xEA, CHR 0xB0, CHR 0x9C, CHR 0xEC, CHR 0x84, CHR 0xA0] @ '' '' @
         [CHR 0xED, CHR 0x95, CHR 0x84, CHR 0xEC, CHR 0x9A, CHR 0x94] \<rparr>"
| "gradeInfoMap poor =
     \<lparr> level = poor,
       label = [CHR 0xEB, CHR 0xAF, CHR 0xB8, CHR 0xED, CHR 0x9D, CHR 0xA1],
       color = ''text-red-600'', bgColor = ''bg-red-100'',
       description =
         [CHR 0xEC, CHR 0xA6, CHR 0x89, CHR 0xEA, CHR 0xB0, CHR 0x81, CHR 0xEC,
          CHR 0xA0, CHR 0x81, CHR 0xEC, CHR 0x9D, CHR 0xB8] @ '' '' @
         [CHR 0xEA, CHR 0xB0, CHR 0x9C, CHR 0xEC, CHR 0x84, CHR 0xA0] @ '' '' @
         [CHR 0xED, CHR 0x95, CHR 0x84, CHR 0xEC, CHR 0x9A, CHR 0x94] \<rparr>"

definition convertToGrade :: "number \<Rightarrow> GradeInfo" where
  "convertToGrade averageScore =
     (if js_ge averageScore (th_excellent gradeThresholds) then gradeInfoMap excellent
      else if js_ge averageScore (th_good gradeThresholds) then gradeInfoMap good
      else if js_ge averageScore (th_average gradeThresholds) then gradeInfoMap average
      else gradeInfoMap poor)"

text \<open>The ordinal position of a grade: poor < average < good < excellent.\<close>

fun grade_rank :: "GradeLevel \<Rightarrow> nat" where
  "grade_rank poor = 0"
| "grade_rank average = 1"
| "grade_rank good = 2"
| "grade_rank excellent = 3"

section \<open>parseInt\<close>

text \<open>
  \<open>parseInt(string)\<close> with no radix, as ECMAScript defines it: leading white space is
  dropped, then an optional sign, then an optional \<open>0x\<close> or \<open>0X\<close> that switches to
  radix 16; the longest prefix of digits of the radix is the value, and no digit at all
  gives \<open>NaN\<close>. Whatever follows the digits is ignored.
\<close>

text \<open>
  The number of bytes of the white space character at the head of a string, 0 when the
  string does not start with one: TAB, LF, VT, FF, CR, SP, then U+00A0, U+1680,
  U+2000 to U+200A, U+2028, U+2029, U+202F, U+205F, U+3000 and U+FEFF in UTF-8.
\<close>

definition white_space_length :: "string \<Rightarrow> nat" where
  "white_space_length s =
     (if take 1 s \<in> set [[CHR 0x09], [CHR 0x0A], [CHR 0x0B], [CHR 0x0C], [CHR 0x0D],
                         [CHR 0x20]] then 1
      else if take 2 s = [CHR 0xC2, CHR 0xA0] then 2
      else if take 3 s \<in> set ([[CHR 0xE1, CHR 0x9A, CHR 0x80]] @
                map (\<lambda>b. [CHR 0xE2, CHR 0x80, b])
                  [CHR 0x80, CHR 0x81, CHR 0x82, CHR 0x83, CHR 0x84, CHR 0x85, CHR 0x86,
                   CHR 0x87, CHR 0x88, CHR 0x89, CHR 0x8A, CHR 0xA8, CHR 0xA9, CHR 0xAF] @
                [[CHR 0xE2, CHR 0x81, CHR 0x9F], [CHR 0xE3, CHR 0x80, CHR 0x80],
                 [CHR 0xEF, CHR 0xBB, CHR 0xBF]]) then 3
      else 0)"

function trim_start :: "string \<Rightarrow> string" where
  "trim_start s =
     (if white_space_length s = 0 then s else trim_start (drop (white_space_length s) s))"
  by pat_completeness auto
termination
proof (relation "measure length")
  show "wf (measure length)" by simp
next
  fix s :: string
  assume "white_space_length s \<noteq> 0"
  then have "s \<noteq> []" by (auto simp: white_space_length_def)
  with \<open>white_space_length s \<noteq> 0\<close>
  show "(drop (white_space_length s) s, s) \<in> measure length" by simp
qed

declare trim_start.simps [simp del]

text \<open>The value of a character as a digit of the radix, if it is one.\<close>

definition digit_of :: "nat \<Rightarrow> char \<Rightarrow> nat option" where
  "digit_of radix c =
     (let n = (of_char c :: nat);
          v = (if 48 \<le> n \<and> n \<le> 57 then Some (n - 48)
               else if 97 \<le> n \<and> n \<le> 122 then Some (n - 87)
               else if 65 \<le> n \<and> n \<le> 90 then Some (n - 55)
               else None)
      in case v of None \<Rightarrow> None | Some d \<Rightarrow> (if d < radix then Some d else None))"

fun digits_value :: "nat \<Rightarrow> nat \<Rightarrow> string \<Rightarrow> nat" where
  "digits_value radix acc [] = acc"
| "digits_value radix acc (c # cs) =
     (case digit_of radix c of
        None \<Rightarrow> acc
      | Some d \<Rightarrow> digits_value radix (acc * radix + d) cs)"

text \<open>
  The result is the exact integer; JavaScript rounds one of more than 53 bits to a
  double, which does not move it across 1 or 5.
\<close>

definition parseInt :: "string \<Rightarrow> number" where
  "parseInt inputString =
     (let S = trim_start inputString;
          sign = (if take 1 S = ''-'' then - 1 else 1 :: real);
          S1 = (if take 1 S = ''+'' \<or> take 1 S = ''-'' then drop 1 S else S);
          hex = (take 2 S1 = ''0x'' \<or> take 2 S1 = ''0X'');
          R = (if hex then 16 else 10 :: nat);
          S2 = (if hex then drop 2 S1 else S1)
      in case S2 of
           [] \<Rightarrow> NaN
         | c # cs \<Rightarrow> (case digit_of R c of
                        None \<Rightarrow> NaN
                      | Some d \<Rightarrow> Finite (sign * real (digits_value R 0 S2))))"

fun isNaN :: "number \<Rightarrow> bool" where
  "isNaN NaN = True"
| "isNaN _ = False"

section \<open>The collections (integrations/firebase/types)\<close>

datatype RespondentType = teacher | staff | parent | student

text \<open>The question type \<open>'text'\<close> is written \<open>text_type\<close>.\<close>

datatype QuestionType = rating | multiple_choice | text_type | priority

text \<open>
  The interfaces without their dates and without the optional properties of a question
  that no function below reads (\<open>indicator_id\<close>, \<open>description\<close>, \<open>image_url\<close>,
  \<open>options\<close>); an optional property is an \<open>option\<close>. The \<open>id\<close> of a question is
  \<open>q_id\<close> and that of a response \<open>r_id\<close>.
\<close>

record Question =
  q_id :: string
  project_id :: string
  respondent_type :: RespondentType
  question_type :: QuestionType
  question_text :: string
  is_required :: bool
  order_index :: int
  section_name :: "string option"

record Response =
  r_id :: string
  question_id :: string
  project_id :: string
  respondent_type :: RespondentType
  response_value :: "string option"
  session_id :: string

text \<open>
  \<open>calculateAverageFromResponses\<close>: the mean of the answers that \<open>parseInt\<close> reads
  as a number from 1 to 5.
\<close>

definition is_rating :: "number \<Rightarrow> bool" where
  "is_rating n = (\<not> isNaN n \<and> js_ge n (Finite 1) \<and> js_le n (Finite 5))"

definition calculateAverageFromResponses :: "string list \<Rightarrow> number" where
  "calculateAverageFromResponses responses =
     (let numericValues = filter is_rating (map parseInt responses)
      in if length numericValues = 0 then Finite 0
         else js_div (foldl js_add (Finite 0) numericValues)
                (Finite (real (length numericValues))))"

section \<open>Project statistics (ProjectStats.loadStats)\<close>

text \<open>
  A \<open>Record<string, number>\<close> is an association list with the keys in the order of
  their first assignment, which is the order \<open>Object.keys\<close> lists them in.
\<close>

type_synonym ('k, 'v) js_record = "('k \<times> 'v) list"

definition rec_get :: "('k, 'v) js_record \<Rightarrow> 'k \<Rightarrow> 'v option" where
  "rec_get m k = map_of m k"

fun rec_set :: "('k, 'v) js_record \<Rightarrow> 'k \<Rightarrow> 'v \<Rightarrow> ('k, 'v) js_record" where
  "rec_set [] k v = [(k, v)]"
| "rec_set ((k', v') # m) k v =
     (if k' = k then (k, v) # m else (k', v') # rec_set m k v)"

definition Object_keys :: "('k, 'v) js_record \<Rightarrow> 'k list" where
  "Object_keys m = map fst m"

text \<open>\<open>m[k] || d\<close> on a record of counts: a missing key and a zero both give \<open>d\<close>.\<close>

definition get_or :: "('k, nat) js_record \<Rightarrow> 'k \<Rightarrow> nat \<Rightarrow> nat" where
  "get_or m k d = (case rec_get m k of None \<Rightarrow> d | Some n \<Rightarrow> (if n = 0 then d else n))"

text \<open>\<open>m[k] = (m[k] || 0) + 1\<close>\<close>

definition count_up :: "('k, nat) js_record \<Rightarrow> 'k \<Rightarrow> ('k, nat) js_record" where
  "count_up m k = rec_set m k (get_or m k 0 + 1)"

record ResponsesByTypeData =
  cd_respondent_type :: RespondentType
  average_score :: number
  response_count :: nat

record Stats =
  totalQuestions :: nat
  totalResponses :: nat
  responsesByType :: "(RespondentType, nat) js_record"
  averageRating :: number
  completionRate :: "(RespondentType, number) js_record"
  chartData :: "ResponsesByTypeData list"

text \<open>The first loop: responses counted by type.\<close>

definition typeCount_of :: "Response list \<Rightarrow> (RespondentType, nat) js_record" where
  "typeCount_of responses =
     foldl (\<lambda>typeCount r. count_up typeCount (Response.respondent_type r)) [] responses"

text \<open>The second loop, on the pair \<open>(totalRating, ratingCount)\<close>.\<close>

definition rating_step :: "number \<times> nat \<Rightarrow> Response \<Rightarrow> number \<times> nat" where
  "rating_step acc r =
     (case response_value r of
        None \<Rightarrow> acc
      | Some v \<Rightarrow>
          if v = [] then acc
          else (let value = parseInt v
                in if \<not> isNaN value \<and> js_ge value (Finite 1) \<and> js_le value (Finite 5)
                   then (js_add (fst acc) value, snd acc + 1)
                   else acc))"

definition rating_totals :: "Response list \<Rightarrow> number \<times> nat" where
  "rating_totals responses = foldl rating_step (Finite 0, 0) responses"

text \<open>The third loop: questions counted by type.\<close>

definition questionsByType_of :: "Question list \<Rightarrow> (RespondentType, nat) js_record" where
  "questionsByType_of questions =
     foldl (\<lambda>questionsByType q. count_up questionsByType (Question.respondent_type q))
       [] questions"

text \<open>The fourth loop: one completion rate for each key of \<open>questionsByType\<close>.\<close>

definition completion_step ::
  "(RespondentType, nat) js_record \<Rightarrow> (RespondentType, nat) js_record \<Rightarrow>
   (RespondentType, number) js_record \<Rightarrow> RespondentType \<Rightarrow>
   (RespondentType, number) js_record" where
  "completion_step typeCount questionsByType completionRate' type =
     (let responded = get_or typeCount type 0;
          total = get_or questionsByType type 1
      in rec_set completionRate' type
           (Math_round (js_mul (js_div (Finite (real responded)) (Finite (real total)))
                          (Finite 100))))"

text \<open>
  The body of \<open>loadStats\<close> on the results of its four queries; what it passes to
  \<open>setStats\<close> is the result. In \<open>chartData\<close> the count \<open>typeCount[type]\<close> is read
  for a key of \<open>typeCount\<close>, where it is defined and not 0.
\<close>

definition loadStats :: "nat \<Rightarrow> nat \<Rightarrow> Response list \<Rightarrow> Question list \<Rightarrow> Stats" where
  "loadStats questionsCount responsesCount responses questions =
     (let typeCount = typeCount_of responses;
          (totalRating, ratingCount) = rating_totals responses;
          questionsByType = questionsByType_of questions;
          completionRate' =
            foldl (completion_step typeCount questionsByType) []
              (Object_keys questionsByType);
          avg = (if ratingCount > 0 then js_div totalRating (Finite (real ratingCount))
                 else Finite 0);
          chartData' =
            map (\<lambda>type. \<lparr> cd_respondent_type = type, average_score = avg,
                           response_count = get_or typeCount type 0 \<rparr>)
              (Object_keys typeCount)
      in \<lparr> totalQuestions = questionsCount,
           totalResponses = responsesCount,
           responsesByType = typeCount,
           averageRating = avg,
           completionRate = completionRate',
           chartData = chartData' \<rparr>)"

text \<open>\<open>StatsCharts\<close> shows the grade of the overall average.\<close>

definition overallGrade :: "Stats \<Rightarrow> GradeInfo" where
  "overallGrade stats = convertToGrade (averageRating stats)"

section \<open>The Cloud Functions (functions/src/index.ts)\<close>

subsection \<open>Errors\<close>

text \<open>
  A thrown value is an \<open>HttpsError\<close> with its code and message, or another error
  with its name and message. A function returns \<open>Inl\<close> of what it throws.
\<close>

datatype FunctionsErrorCode = invalid_argument | not_found | internal

datatype js_error = HttpsError FunctionsErrorCode string | Error string string

text \<open>
  \<open>`${error}`\<close>, that is \<open>Error.prototype.toString\<close>: the name, a colon and the
  message. \<open>HttpsError\<close> extends \<open>Error\<close> and keeps its name.
\<close>

fun error_to_string :: "js_error \<Rightarrow> string" where
  "error_to_string (HttpsError c m) = (if m = [] then ''Error'' else ''Error: '' @ m)"
| "error_to_string (Error n m) =
     (if n = [] then m else if m = [] then n else n @ '': '' @ m)"

subsection \<open>Messages\<close>

text \<open>A project ID is required.\<close>

definition msg_project_id_required :: string where
  "msg_project_id_required =
     [CHR 0xED, CHR 0x94, CHR 0x84, CHR 0xEB, CHR 0xA1, CHR 0x9C, CHR 0xEC,
     CHR 0xA0, CHR 0x9D, CHR 0xED, CHR 0x8A, CHR 0xB8] @ '' ID'' @
     [CHR 0xEA, CHR 0xB0, CHR 0x80] @ '' '' @ [CHR 0xED, CHR 0x95, CHR 0x84,
     CHR 0xEC, CHR 0x9A, CHR 0x94, CHR 0xED, CHR 0x95, CHR 0xA9, CHR 0xEB,
     CHR 0x8B, CHR 0x88, CHR 0xEB, CHR 0x8B, CHR 0xA4] @ ''.''"

text \<open>The project cannot be found.\<close>

definition msg_project_not_found :: string where
  "msg_project_not_found =
     [CHR 0xED, CHR 0x94, CHR 0x84, CHR 0xEB, CHR 0xA1, CHR 0x9C, CHR 0xEC,
     CHR 0xA0, CHR 0x9D, CHR 0xED, CHR 0x8A, CHR 0xB8, CHR 0xEB, CHR 0xA5,
     CHR 0xBC] @ '' '' @ [CHR 0xEC, CHR 0xB0, CHR 0xBE, CHR 0xEC, CHR 0x9D,
     CHR 0x84] @ '' '' @ [CHR 0xEC, CHR 0x88, CHR 0x98] @ '' '' @ [CHR 0xEC,
     CHR 0x97, CHR 0x86, CHR 0xEC, CHR 0x8A, CHR 0xB5, CHR 0xEB, CHR 0x8B,
     CHR 0x88, CHR 0xEB, CHR 0x8B, CHR 0xA4] @ ''.''"

text \<open>There is no response to analyse.\<close>

definition msg_no_responses :: string where
  "msg_no_responses =
     [CHR 0xEB, CHR 0xB6, CHR 0x84, CHR 0xEC, CHR 0x84, CHR 0x9D, CHR 0xED,
     CHR 0x95, CHR 0xA0] @ '' '' @ [CHR 0xEC, CHR 0x9D, CHR 0x91, CHR 0xEB,
     CHR 0x8B, CHR 0xB5, CHR 0xEC, CHR 0x9D, CHR 0xB4] @ '' '' @ [CHR 0xEC,
     CHR 0x97, CHR 0x86, CHR 0xEC, CHR 0x8A, CHR 0xB5, CHR 0xEB, CHR 0x8B,
     CHR 0x88, CHR 0xEB, CHR 0x8B, CHR 0xA4] @ ''.''"

text \<open>No JSON can be extracted from the AI response.\<close>

definition msg_no_json :: string where
  "msg_no_json =
     ''AI '' @ [CHR 0xEC, CHR 0x9D, CHR 0x91, CHR 0xEB, CHR 0x8B, CHR 0xB5,
     CHR 0xEC, CHR 0x97, CHR 0x90, CHR 0xEC, CHR 0x84, CHR 0x9C] @
     '' JSON'' @ [CHR 0xEC, CHR 0x9D, CHR 0x84] @ '' '' @ [CHR 0xEC,
     CHR 0xB6, CHR 0x94, CHR 0xEC, CHR 0xB6, CHR 0x9C, CHR 0xED, CHR 0x95,
     CHR 0xA0] @ '' '' @ [CHR 0xEC, CHR 0x88, CHR 0x98] @ '' '' @ [CHR 0xEC,
     CHR 0x97, CHR 0x86, CHR 0xEC, CHR 0x8A, CHR 0xB5, CHR 0xEB, CHR 0x8B,
     CHR 0x88, CHR 0xEB, CHR 0x8B, CHR 0xA4] @ ''.''"

text \<open>An error occurred during the analysis:\<close>

definition analysis_error_prefix :: string where
  "analysis_error_prefix =
     [CHR 0xEB, CHR 0xB6, CHR 0x84, CHR 0xEC, CHR 0x84, CHR 0x9D] @ '' '' @
     [CHR 0xEC, CHR 0xA4, CHR 0x91] @ '' '' @ [CHR 0xEC, CHR 0x98, CHR 0xA4,
     CHR 0xEB, CHR 0xA5, CHR 0x98, CHR 0xEA, CHR 0xB0, CHR 0x80] @ '' '' @
     [CHR 0xEB, CHR 0xB0, CHR 0x9C, CHR 0xEC, CHR 0x83, CHR 0x9D, CHR 0xED,
     CHR 0x96, CHR 0x88, CHR 0xEC, CHR 0x8A, CHR 0xB5, CHR 0xEB, CHR 0x8B,
     CHR 0x88, CHR 0xEB, CHR 0x8B, CHR 0xA4] @ '': ''"

text \<open>An error occurred while generating the report:\<close>

definition report_error_prefix :: string where
  "report_error_prefix =
     [CHR 0xEB, CHR 0xB3, CHR 0xB4, CHR 0xEA, CHR 0xB3, CHR 0xA0, CHR 0xEC,
     CHR 0x84, CHR 0x9C] @ '' '' @ [CHR 0xEC, CHR 0x83, CHR 0x9D, CHR 0xEC,
     CHR 0x84, CHR 0xB1] @ '' '' @ [CHR 0xEC, CHR 0xA4, CHR 0x91] @ '' '' @
     [CHR 0xEC, CHR 0x98, CHR 0xA4, CHR 0xEB, CHR 0xA5, CHR 0x98, CHR 0xEA,
     CHR 0xB0, CHR 0x80] @ '' '' @ [CHR 0xEB, CHR 0xB0, CHR 0x9C, CHR 0xEC,
     CHR 0x83, CHR 0x9D, CHR 0xED, CHR 0x96, CHR 0x88, CHR 0xEC, CHR 0x8A,
     CHR 0xB5, CHR 0xEB, CHR 0x8B, CHR 0x88, CHR 0xEB, CHR 0x8B, CHR 0xA4] @
     '': ''"

text \<open>school evaluation report\<close>

definition server_title_suffix :: string where
  "server_title_suffix =
     '' '' @ [CHR 0xED, CHR 0x95, CHR 0x99, CHR 0xEA, CHR 0xB5, CHR 0x90] @
     '' '' @ [CHR 0xED, CHR 0x8F, CHR 0x89, CHR 0xEA, CHR 0xB0, CHR 0x80] @
     '' '' @ [CHR 0xEB, CHR 0xB3, CHR 0xB4, CHR 0xEA, CHR 0xB3, CHR 0xA0,
     CHR 0xEC, CHR 0x84, CHR 0x9C]"

subsection \<open>Parsed JSON\<close>

datatype json =
  JNull | JBool bool | JNum number | JStr string | JArr "json list"
  | JObj "(string \<times> json) list"

fun truthy_json :: "json \<Rightarrow> bool" where
  "truthy_json JNull = False"
| "truthy_json (JBool b) = b"
| "truthy_json (JNum n) = truthy_number n"
| "truthy_json (JStr s) = (s \<noteq> [])"
| "truthy_json (JArr xs) = True"
| "truthy_json (JObj kvs) = True"

text \<open>
  Reading the property \<open>title\<close> or \<open>sections\<close> of a parsed value: a \<open>TypeError\<close>
  on \<open>null\<close> (with the message of V8), the value or \<open>undefined\<close> (\<open>None\<close>) on an
  object, and \<open>undefined\<close> on anything else.
\<close>

fun get_property :: "json \<Rightarrow> string \<Rightarrow> js_error + json option" where
  "get_property JNull k =
     Inl (Error ''TypeError'' (''Cannot read properties of null (reading '' @ [CHR 0x27] @ k
            @ [CHR 0x27] @ '')''))"
| "get_property (JObj kvs) k = Inr (map_of kvs k)"
| "get_property v k = Inr None"

text \<open>\<open>v || d\<close> on a property that was read.\<close>

definition or_json :: "json option \<Rightarrow> json \<Rightarrow> json" where
  "or_json v d = (case v of None \<Rightarrow> d | Some x \<Rightarrow> (if truthy_json x then x else d))"

subsection \<open>Extracting the JSON of the model's answer\<close>

text \<open>
  \<open>responseText.match(/\{[\s\S]*\}/)\<close>: the match starts at the first opening brace
  and, the star being greedy, ends at the last closing brace after it; there is no
  match when no closing brace follows the first opening one.
\<close>

definition jsonMatch :: "string \<Rightarrow> string option" where
  "jsonMatch responseText =
     (case dropWhile (\<lambda>c. c \<noteq> CHR ''{'') responseText of
        [] \<Rightarrow> None
      | b # rest \<Rightarrow>
          (if CHR ''}'' \<in> set rest
           then Some (b # rev (dropWhile (\<lambda>c. c \<noteq> CHR ''}'') (rev rest)))
           else None))"

text \<open>
  The block \<open>// JSON\<close> of both functions (the \<open>parseStructuredOutput\<close> of the
  specification). \<open>JSON.parse\<close> belongs to the runtime and is a parameter.
\<close>

definition parseStructuredOutput ::
  "(string \<Rightarrow> js_error + json) \<Rightarrow> string \<Rightarrow> js_error + json" where
  "parseStructuredOutput JSON_parse responseText =
     (case jsonMatch responseText of
        None \<Rightarrow> Inl (Error ''Error'' msg_no_json)
      | Some m \<Rightarrow> JSON_parse m)"

subsection \<open>The database\<close>

text \<open>
  A stored document, as \<open>doc.data()\<close> returns it: every property may be missing. The
  properties that are also fields of the typed interfaces above carry a prefix.
\<close>

record response_doc =
  rd_project_id :: "string field"
  rd_question_id :: "string field"
  rd_respondent_type :: "string field"
  rd_response_value :: "string field"
  rd_session_id :: "string field"
  text_response :: "string field"
  rating_response :: "number field"

record question_doc =
  qd_id :: string
  qd_project_id :: "string field"
  qd_question_text :: "string field"

record project_doc =
  pd_name :: "string field"
  pd_school_id :: string

record school_doc =
  school_name :: "string field"

text \<open>
  Documents by their id for the two collections read by id, lists for the two that are
  queried. Reading the database does not fail in this model.
\<close>

record firestore =
  projects :: "(string \<times> project_doc) list"
  schools :: "(string \<times> school_doc) list"
  questions :: "question_doc list"
  responses :: "response_doc list"

definition responses_where_project :: "firestore \<Rightarrow> string \<Rightarrow> response_doc list" where
  "responses_where_project db projectId =
     filter (\<lambda>r. rd_project_id r = Val projectId) (responses db)"

definition questions_where_project :: "firestore \<Rightarrow> string \<Rightarrow> question_doc list" where
  "questions_where_project db projectId =
     filter (\<lambda>q. qd_project_id q = Val projectId) (questions db)"

text \<open>The request: \<open>const { projectId } = data\<close>.\<close>

record request_data =
  projectId :: "string field"

subsection \<open>analyzeResponses\<close>

text \<open>\<open>responses.filter((r) => r.text_response).map((r) => r.text_response)\<close>\<close>

definition textResponses_of :: "response_doc list \<Rightarrow> string field list" where
  "textResponses_of rs = map text_response (filter (\<lambda>r. truthy_string (text_response r)) rs)"

text \<open>
  \<open>responses.filter((r) => r.rating_response !== null).map((r) => r.rating_response)\<close>:
  a missing property is \<open>undefined\<close>, which is not \<open>null\<close>.
\<close>

definition ratingResponses_of :: "response_doc list \<Rightarrow> number field list" where
  "ratingResponses_of rs = map rating_response (filter (\<lambda>r. rating_response r \<noteq> Null) rs)"

text \<open>\<open>xs.reduce((a, b) => a + b, 0)\<close> on numeric properties.\<close>

definition sum_ratings :: "number field list \<Rightarrow> number" where
  "sum_ratings xs = foldl (\<lambda>a b. js_add a (to_number b)) (Finite 0) xs"

record analysis_statistics =
  as_totalResponses :: nat
  as_textResponses :: nat
  as_ratingResponses :: nat
  as_averageRating :: number

text \<open>
  The returned object: \<open>analysis\<close> is the parsed value that is spread, and
  \<open>analysis_statistics\<close> the property \<open>statistics\<close> set after it.
\<close>

record analysis_response =
  an_success :: bool
  analysis :: json
  analysis_statistics :: analysis_statistics

text \<open>
  The outcome of the generative service in this call (loading the client, the request
  and reading the text of the answer) is an input: \<open>Inl\<close> of what was thrown, or the
  text. The prompt is not modelled.
\<close>

definition analyzeResponses_try ::
  "(string \<Rightarrow> js_error + json) \<Rightarrow> firestore \<Rightarrow> js_error + string \<Rightarrow> string \<Rightarrow>
   js_error + analysis_response" where
  "analyzeResponses_try JSON_parse db generated pid =
     (case map_of (projects db) pid of
        None \<Rightarrow> Inl (HttpsError not_found msg_project_not_found)
      | Some projectDoc \<Rightarrow>
          (let rs = responses_where_project db pid in
           if rs = [] then Inl (HttpsError not_found msg_no_responses)
           else
             (let textResponses = textResponses_of rs;
                  ratingResponses = ratingResponses_of rs
              in case generated of
                   Inl e \<Rightarrow> Inl e
                 | Inr responseText \<Rightarrow>
                     (case parseStructuredOutput JSON_parse responseText of
                        Inl e \<Rightarrow> Inl e
                      | Inr parsed \<Rightarrow>
                          (let avg =
                                 (if length ratingResponses > 0
                                  then js_div (sum_ratings ratingResponses)
                                         (Finite (real (length ratingResponses)))
                                  else Finite 0)
                           in Inr \<lparr> an_success = True,
                                    analysis = parsed,
                                    analysis_statistics =
                                      \<lparr> as_totalResponses = length rs,
                                        as_textResponses = length textResponses,
                                        as_ratingResponses = length ratingResponses,
                                        as_averageRating =
                                          js_div (Math_round (js_mul avg (Finite 10)))
                                            (Finite 10) \<rparr> \<rparr>)))))"

text \<open>
  The whole handler: the test of \<open>projectId\<close> comes before the \<open>try\<close>; whatever is
  thrown inside the \<open>try\<close> is caught and thrown again as an \<open>internal\<close> error.
\<close>

definition analyzeResponses ::
  "(string \<Rightarrow> js_error + json) \<Rightarrow> firestore \<Rightarrow> js_error + string \<Rightarrow> request_data \<Rightarrow>
   js_error + analysis_response" where
  "analyzeResponses JSON_parse db generated data =
     (case projectId data of
        Val pid \<Rightarrow>
          (if pid = [] then Inl (HttpsError invalid_argument msg_project_id_required)
           else (case analyzeResponses_try JSON_parse db generated pid of
                   Inl error \<Rightarrow>
                     Inl (HttpsError internal (analysis_error_prefix @ error_to_string error))
                 | Inr result \<Rightarrow> Inr result))
      | _ \<Rightarrow> Inl (HttpsError invalid_argument msg_project_id_required))"

subsection \<open>generateReport\<close>

text \<open>\<open>respondentStats\<close>, with \<open>r.respondent_type || "unknown"\<close> as the key.\<close>

definition respondentStats_of :: "response_doc list \<Rightarrow> (string, nat) js_record" where
  "respondentStats_of rs =
     foldl (\<lambda>respondentStats r.
              count_up respondentStats (or_string (rd_respondent_type r) ''unknown''))
       [] rs"

record question_stat =
  question :: "string field"
  responseCount :: nat
  qs_averageRating :: "number field"

definition questionStat_of :: "response_doc list \<Rightarrow> question_doc \<Rightarrow> question_stat" where
  "questionStat_of rs q =
     (let qResponses = filter (\<lambda>r. rd_question_id r = Val (qd_id q)) rs;
          ratings = ratingResponses_of qResponses;
          avgRating =
            (if length ratings > 0
             then Val (js_div (sum_ratings ratings) (Finite (real (length ratings))))
             else Null)
      in \<lparr> question = qd_question_text q,
           responseCount = length qResponses,
           qs_averageRating =
             (if truthy_number_field avgRating
              then Val (js_div (Math_round (js_mul (to_number avgRating) (Finite 10)))
                          (Finite 10))
              else Null) \<rparr>)"

text \<open>\<open>x || 0\<close> on a number.\<close>

definition or_zero :: "number \<Rightarrow> number" where
  "or_zero x = (if truthy_number x then x else Finite 0)"

text \<open>The \<open>averageRating\<close> of the report: the mean of the question averages, or 0.\<close>

definition report_averageRating :: "question_stat list \<Rightarrow> number" where
  "report_averageRating questionStats =
     (let rated = filter (\<lambda>q. qs_averageRating q \<noteq> Null) questionStats
      in or_zero
           (js_div
              (foldl (\<lambda>sum q. js_add sum (or_zero (to_number (qs_averageRating q))))
                 (Finite 0) rated)
              (Finite (real (length rated)))))"

text \<open>
  \<open>Math.round((responses.length / (questions.length * 10)) * 100)\<close>
\<close>

definition report_completionRate :: "nat \<Rightarrow> nat \<Rightarrow> number" where
  "report_completionRate n_responses n_questions =
     Math_round
       (js_mul
          (js_div (Finite (real n_responses)) (js_mul (Finite (real n_questions)) (Finite 10)))
          (Finite 100))"

record report_statistics =
  rs_totalResponses :: nat
  rs_averageRating :: number
  rs_completionRate :: number

record report =
  title :: json
  generatedAt :: string
  sections :: json
  statistics :: report_statistics

record report_response =
  success :: bool
  report :: report

text \<open>The body of the \<open>try\<close>; \<open>now\<close> is \<open>new Date().toISOString()\<close>.\<close>

definition generateReport_try ::
  "(string \<Rightarrow> js_error + json) \<Rightarrow> string \<Rightarrow> firestore \<Rightarrow> js_error + string \<Rightarrow> string \<Rightarrow>
   js_error + report_response" where
  "generateReport_try JSON_parse now db generated pid =
     (case map_of (projects db) pid of
        None \<Rightarrow> Inl (HttpsError not_found msg_project_not_found)
      | Some project \<Rightarrow>
          (let school = map_of (schools db) (pd_school_id project);
               qs = questions_where_project db pid;
               rs = responses_where_project db pid;
               questionStats = map (questionStat_of rs) qs
           in case generated of
                Inl e \<Rightarrow> Inl e
              | Inr responseText \<Rightarrow>
                  (case parseStructuredOutput JSON_parse responseText of
                     Inl e \<Rightarrow> Inl e
                   | Inr reportData \<Rightarrow>
                       (case get_property reportData ''title'' of
                          Inl e \<Rightarrow> Inl e
                        | Inr reportTitle \<Rightarrow>
                            (case get_property reportData ''sections'' of
                               Inl e \<Rightarrow> Inl e
                             | Inr reportSections \<Rightarrow>
                                 Inr \<lparr> success = True,
                                       report =
                                         \<lparr> title =
                                             or_json reportTitle
                                               (JStr (or_string
                                                        (case school of
                                                           None \<Rightarrow> Absent
                                                         | Some s \<Rightarrow> school_name s) []
                                                      @ server_title_suffix)),
                                           generatedAt = now,
                                           sections = or_json reportSections (JArr []),
                                           statistics =
                                             \<lparr> rs_totalResponses = length rs,
                                               rs_averageRating =
                                                 report_averageRating questionStats,
                                               rs_completionRate =
                                                 report_completionRate (length rs)
                                                   (length qs) \<rparr> \<rparr> \<rparr>)))))"

definition generateReport ::
  "(string \<Rightarrow> js_error + json) \<Rightarrow> string \<Rightarrow> firestore \<Rightarrow> js_error + string \<Rightarrow>
   request_data \<Rightarrow> js_error + report_response" where
  "generateReport JSON_parse now db generated data =
     (case projectId data of
        Val pid \<Rightarrow>
          (if pid = [] then Inl (HttpsError invalid_argument msg_project_id_required)
           else (case generateReport_try JSON_parse now db generated pid of
                   Inl error \<Rightarrow>
                     Inl (HttpsError internal (report_error_prefix @ error_to_string error))
                 | Inr result \<Rightarrow> Inr result))
      | _ \<Rightarrow> Inl (HttpsError invalid_argument msg_project_id_required))"

section \<open>Submitting a survey (Survey.handleSubmit, createResponses)\<close>

record SurveyLink =
  sl_id :: string
  sl_project_id :: string
  sl_respondent_type :: RespondentType
  access_code :: string
  is_active :: bool

text \<open>\<open>Omit<Response, 'id' | 'created_at'>\<close>\<close>

record NewResponse =
  nr_project_id :: string
  nr_question_id :: string
  nr_respondent_type :: RespondentType
  nr_response_value :: "string option"
  nr_session_id :: string

text \<open>
  \<open>responsesToInsert\<close>, the same in \<open>Survey\<close> and \<open>TeacherSurvey\<close>: one object for
  each question with a non-empty answer in the state \<open>responses\<close>.
\<close>

definition responsesToInsert ::
  "SurveyLink \<Rightarrow> string \<Rightarrow> (string, string) js_record \<Rightarrow> Question list \<Rightarrow> NewResponse list" where
  "responsesToInsert surveyLink sessionId answered qs =
     map (\<lambda>q. \<lparr> nr_project_id = sl_project_id surveyLink,
                 nr_question_id = q_id q,
                 nr_respondent_type = sl_respondent_type surveyLink,
                 nr_response_value = rec_get answered (q_id q),
                 nr_session_id = sessionId \<rparr>)
       (filter (\<lambda>q. case rec_get answered (q_id q) of None \<Rightarrow> False | Some v \<Rightarrow> v \<noteq> []) qs)"

fun respondent_type_name :: "RespondentType \<Rightarrow> string" where
  "respondent_type_name teacher = ''teacher''"
| "respondent_type_name staff = ''staff''"
| "respondent_type_name parent = ''parent''"
| "respondent_type_name student = ''student''"

text \<open>
  The document that \<open>addDoc\<close> stores for such an object, as a later \<open>doc.data()\<close>
  returns it: the five properties of the object (and \<open>created_at\<close>, which nothing below
  reads). The object has no property \<open>text_response\<close> and none \<open>rating_response\<close>, so
  reading them gives \<open>undefined\<close>.
\<close>

definition stored_response :: "NewResponse \<Rightarrow> response_doc" where
  "stored_response r =
     \<lparr> rd_project_id = Val (nr_project_id r),
       rd_question_id = Val (nr_question_id r),
       rd_respondent_type = Val (respondent_type_name (nr_respondent_type r)),
       rd_response_value = (case nr_response_value r of None \<Rightarrow> Absent | Some v \<Rightarrow> Val v),
       rd_session_id = Val (nr_session_id r),
       text_response = Absent,
       rating_response = Absent \<rparr>"

definition createResponses :: "NewResponse list \<Rightarrow> firestore \<Rightarrow> firestore" where
  "createResponses rs db = db \<lparr> responses := responses db @ map stored_response rs \<rparr>"

section \<open>The report on the client (ReportGenerator.generateReport)\<close>

text \<open>\<open>s.includes(p)\<close>, written \<open>string_includes s p\<close>.\<close>

fun starts_with :: "string \<Rightarrow> string \<Rightarrow> bool" where
  "starts_with s [] = True"
| "starts_with [] (p # ps) = False"
| "starts_with (c # cs) (p # ps) = (c = p \<and> starts_with cs ps)"

fun string_includes :: "string \<Rightarrow> string \<Rightarrow> bool" where
  "string_includes [] p = (p = [])"
| "string_includes (c # cs) p = (starts_with (c # cs) p \<or> string_includes cs p)"

text \<open>An error occurred while generating the report.\<close>

definition client_default_error :: string where
  "client_default_error =
     [CHR 0xEB, CHR 0xB3, CHR 0xB4, CHR 0xEA, CHR 0xB3, CHR 0xA0, CHR 0xEC,
     CHR 0x84, CHR 0x9C] @ '' '' @ [CHR 0xEC, CHR 0x83, CHR 0x9D, CHR 0xEC,
     CHR 0x84, CHR 0xB1] @ '' '' @ [CHR 0xEC, CHR 0xA4, CHR 0x91] @ '' '' @
     [CHR 0xEC, CHR 0x98, CHR 0xA4, CHR 0xEB, CHR 0xA5, CHR 0x98, CHR 0xEA,
     CHR 0xB0, CHR 0x80] @ '' '' @ [CHR 0xEB, CHR 0xB0, CHR 0x9C, CHR 0xEC,
     CHR 0x83, CHR 0x9D, CHR 0xED, CHR 0x96, CHR 0x88, CHR 0xEC, CHR 0x8A,
     CHR 0xB5, CHR 0xEB, CHR 0x8B, CHR 0x88, CHR 0xEB, CHR 0x8B, CHR 0xA4] @
     ''.''"

text \<open>Firebase Functions is not deployed yet. A demo report is shown.\<close>

definition toast_demo_report :: string where
  "toast_demo_report =
     ''Firebase Functions'' @ [CHR 0xEA, CHR 0xB0, CHR 0x80] @ '' '' @
     [CHR 0xEC, CHR 0x95, CHR 0x84, CHR 0xEC, CHR 0xA7, CHR 0x81] @ '' '' @
     [CHR 0xEB, CHR 0xB0, CHR 0xB0, CHR 0xED, CHR 0x8F, CHR 0xAC, CHR 0xEB,
     CHR 0x90, CHR 0x98, CHR 0xEC, CHR 0xA7, CHR 0x80] @ '' '' @ [CHR 0xEC,
     CHR 0x95, CHR 0x8A, CHR 0xEC, CHR 0x95, CHR 0x98, CHR 0xEC, CHR 0x8A,
     CHR 0xB5, CHR 0xEB, CHR 0x8B, CHR 0x88, CHR 0xEB, CHR 0x8B, CHR 0xA4] @
     ''. '' @ [CHR 0xEB, CHR 0x8D, CHR 0xB0, CHR 0xEB, CHR 0xAA, CHR 0xA8] @
     '' '' @ [CHR 0xEB, CHR 0xB3, CHR 0xB4, CHR 0xEA, CHR 0xB3, CHR 0xA0,
     CHR 0xEC, CHR 0x84, CHR 0x9C, CHR 0xEB, CHR 0xA5, CHR 0xBC] @ '' '' @
     [CHR 0xED, CHR 0x91, CHR 0x9C, CHR 0xEC, CHR 0x8B, CHR 0x9C, CHR 0xED,
     CHR 0x95, CHR 0xA9, CHR 0xEB, CHR 0x8B, CHR 0x88, CHR 0xEB, CHR 0x8B,
     CHR 0xA4] @ ''.''"

text \<open>Test school\<close>

definition default_school_name :: string where
  "default_school_name =
     [CHR 0xED, CHR 0x85, CHR 0x8C, CHR 0xEC, CHR 0x8A, CHR 0xA4, CHR 0xED,
     CHR 0x8A, CHR 0xB8] @ '' '' @ [CHR 0xED, CHR 0x95, CHR 0x99, CHR 0xEA,
     CHR 0xB5, CHR 0x90]"

text \<open>school evaluation report\<close>

definition client_title_suffix :: string where
  "client_title_suffix =
     '' '' @ [CHR 0xED, CHR 0x95, CHR 0x99, CHR 0xEA, CHR 0xB5, CHR 0x90,
     CHR 0xED, CHR 0x8F, CHR 0x89, CHR 0xEA, CHR 0xB0, CHR 0x80] @ '' '' @
     [CHR 0xEB, CHR 0xB3, CHR 0xB4, CHR 0xEA, CHR 0xB3, CHR 0xA0, CHR 0xEC,
     CHR 0x84, CHR 0x9C]"

text \<open>School evaluation\<close>

definition project_title :: string where
  "project_title =
     [CHR 0xED, CHR 0x95, CHR 0x99, CHR 0xEA, CHR 0xB5, CHR 0x90, CHR 0xED,
     CHR 0x8F, CHR 0x89, CHR 0xEA, CHR 0xB0, CHR 0x80]"

text \<open>Section 1 of the demo report: Executive summary.\<close>

definition demo_title_1 :: string where
  "demo_title_1 =
     ''1. '' @ [CHR 0xEC, CHR 0x9A, CHR 0x94, CHR 0xEC, CHR 0x95,
     CHR 0xBD] @ '' (Executive Summary)''"

definition demo_content_1 :: string where
  "demo_content_1 =
     [CHR 0xEB, CHR 0xB3, CHR 0xB8] @ '' '' @ [CHR 0xEB, CHR 0xB3, CHR 0xB4,
     CHR 0xEA, CHR 0xB3, CHR 0xA0, CHR 0xEC, CHR 0x84, CHR 0x9C, CHR 0xEB,
     CHR 0x8A, CHR 0x94] @ '' '' @ [CHR 0xED, CHR 0x95, CHR 0x99, CHR 0xEA,
     CHR 0xB5, CHR 0x90] @ '' '' @ [CHR 0xED, CHR 0x8F, CHR 0x89, CHR 0xEA,
     CHR 0xB0, CHR 0x80, CHR 0xEB, CHR 0xA5, CHR 0xBC] @ '' '' @ [CHR 0xEC,
     CHR 0x9C, CHR 0x84, CHR 0xED, CHR 0x95, CHR 0xB4] @ '' '' @ [CHR 0xEC,
     CHR 0x8B, CHR 0xA4, CHR 0xEC, CHR 0x8B, CHR 0x9C, CHR 0xEB, CHR 0x90,
     CHR 0x9C] @ '' '' @ [CHR 0xEC, CHR 0x84, CHR 0xA4, CHR 0xEB, CHR 0xAC,
     CHR 0xB8, CHR 0xEC, CHR 0xA1, CHR 0xB0, CHR 0xEC, CHR 0x82, CHR 0xAC] @
     '' '' @ [CHR 0xEA, CHR 0xB2, CHR 0xB0, CHR 0xEA, CHR 0xB3, CHR 0xBC,
     CHR 0xEB, CHR 0xA5, CHR 0xBC] @ '' '' @ [CHR 0xEC, CHR 0xA2, CHR 0x85,
     CHR 0xED, CHR 0x95, CHR 0xA9, CHR 0xEC, CHR 0xA0, CHR 0x81, CHR 0xEC,
     CHR 0x9C, CHR 0xBC, CHR 0xEB, CHR 0xA1, CHR 0x9C] @ '' '' @ [CHR 0xEB,
     CHR 0xB6, CHR 0x84, CHR 0xEC, CHR 0x84, CHR 0x9D, CHR 0xED, CHR 0x95,
     CHR 0x9C] @ '' '' @ [CHR 0xEA, CHR 0xB2, CHR 0x83, CHR 0xEC, CHR 0x9E,
     CHR 0x85, CHR 0xEB, CHR 0x8B, CHR 0x88, CHR 0xEB, CHR 0x8B, CHR 0xA4] @
     ''. Firebase Cloud Functions '' @ [CHR 0xEB, CHR 0xB0, CHR 0xB0,
     CHR 0xED, CHR 0x8F, CHR 0xAC] @ '' '' @ [CHR 0xED, CHR 0x9B,
     CHR 0x84] @ '' '' @ [CHR 0xEC, CHR 0x8B, CHR 0xA4, CHR 0xEC, CHR 0xA0,
     CHR 0x9C] @ '' '' @ [CHR 0xEB, CHR 0x8D, CHR 0xB0, CHR 0xEC, CHR 0x9D,
     CHR 0xB4, CHR 0xED, CHR 0x84, CHR 0xB0] @ '' '' @ [CHR 0xEA, CHR 0xB8,
     CHR 0xB0, CHR 0xEB, CHR 0xB0, CHR 0x98, CHR 0xEC, CHR 0x9D, CHR 0x98] @
     '' '' @ [CHR 0xEB, CHR 0xB3, CHR 0xB4, CHR 0xEA, CHR 0xB3, CHR 0xA0,
     CHR 0xEC, CHR 0x84, CHR 0x9C, CHR 0xEA, CHR 0xB0, CHR 0x80] @ '' '' @
     [CHR 0xEC, CHR 0x83, CHR 0x9D, CHR 0xEC, CHR 0x84, CHR 0xB1, CHR 0xEB,
     CHR 0x90, CHR 0xA9, CHR 0xEB, CHR 0x8B, CHR 0x88, CHR 0xEB, CHR 0x8B,
     CHR 0xA4] @ ''.''"

text \<open>Section 2 of the demo report: Survey overview.\<close>

definition demo_title_2 :: string where
  "demo_title_2 =
     ''2. '' @ [CHR 0xEC, CHR 0xA1, CHR 0xB0, CHR 0xEC, CHR 0x82,
     CHR 0xAC] @ '' '' @ [CHR 0xEA, CHR 0xB0, CHR 0x9C, CHR 0xEC, CHR 0x9A,
     CHR 0x94]"

definition demo_content_2 :: string where
  "demo_content_2 =
     [CHR 0xEC, CHR 0xA1, CHR 0xB0, CHR 0xEC, CHR 0x82, CHR 0xAC] @ '' '' @
     [CHR 0xEA, CHR 0xB8, CHR 0xB0, CHR 0xEA, CHR 0xB0, CHR 0x84] @
     '': 2025'' @ [CHR 0xEB, CHR 0x85, CHR 0x84, CHR 0x0A, CHR 0xEC,
     CHR 0xA1, CHR 0xB0, CHR 0xEC, CHR 0x82, CHR 0xAC] @ '' '' @ [CHR 0xEB,
     CHR 0x8C, CHR 0x80, CHR 0xEC, CHR 0x83, CHR 0x81] @ '': '' @ [CHR 0xEA,
     CHR 0xB5, CHR 0x90, CHR 0xEC, CHR 0x9B, CHR 0x90] @ '', '' @ [CHR 0xED,
     CHR 0x95, CHR 0x99, CHR 0xEB, CHR 0xB6, CHR 0x80, CHR 0xEB, CHR 0xAA,
     CHR 0xA8] @ '', '' @ [CHR 0xED, CHR 0x95, CHR 0x99, CHR 0xEC, CHR 0x83,
     CHR 0x9D, CHR 0x0A, CHR 0xEC, CHR 0xA1, CHR 0xB0, CHR 0xEC, CHR 0x82,
     CHR 0xAC] @ '' '' @ [CHR 0xEB, CHR 0xB0, CHR 0xA9, CHR 0xEB, CHR 0xB2,
     CHR 0x95] @ '': '' @ [CHR 0xEC, CHR 0x98, CHR 0xA8, CHR 0xEB, CHR 0x9D,
     CHR 0xBC, CHR 0xEC, CHR 0x9D, CHR 0xB8] @ '' '' @ [CHR 0xEC, CHR 0x84,
     CHR 0xA4, CHR 0xEB, CHR 0xAC, CHR 0xB8, CHR 0x0A, CHR 0x0A, CHR 0xEC,
     CHR 0x83, CHR 0x81, CHR 0xEC, CHR 0x84, CHR 0xB8] @ '' '' @ [CHR 0xEC,
     CHR 0x9D, CHR 0x91, CHR 0xEB, CHR 0x8B, CHR 0xB5] @ '' '' @ [CHR 0xED,
     CHR 0x86, CHR 0xB5, CHR 0xEA, CHR 0xB3, CHR 0x84, CHR 0xEB, CHR 0x8A,
     CHR 0x94] @ '' Functions '' @ [CHR 0xEB, CHR 0xB0, CHR 0xB0, CHR 0xED,
     CHR 0x8F, CHR 0xAC] @ '' '' @ [CHR 0xED, CHR 0x9B, CHR 0x84] @ '' '' @
     [CHR 0xED, CHR 0x99, CHR 0x95, CHR 0xEC, CHR 0x9D, CHR 0xB8] @ '' '' @
     [CHR 0xEA, CHR 0xB0, CHR 0x80, CHR 0xEB, CHR 0x8A, CHR 0xA5, CHR 0xED,
     CHR 0x95, CHR 0xA9, CHR 0xEB, CHR 0x8B, CHR 0x88, CHR 0xEB, CHR 0x8B,
     CHR 0xA4] @ ''.''"

text \<open>Section 3 of the demo report: Key findings.\<close>

definition demo_title_3 :: string where
  "demo_title_3 =
     ''3. '' @ [CHR 0xEC, CHR 0xA3, CHR 0xBC, CHR 0xEC, CHR 0x9A,
     CHR 0x94] @ '' '' @ [CHR 0xEB, CHR 0xB0, CHR 0x9C, CHR 0xEA, CHR 0xB2,
     CHR 0xAC, CHR 0xEC, CHR 0x82, CHR 0xAC, CHR 0xED, CHR 0x95, CHR 0xAD]"

definition demo_content_3 :: string where
  "demo_content_3 =
     [CHR 0xEC, CHR 0x84, CHR 0xA4, CHR 0xEB, CHR 0xAC, CHR 0xB8, CHR 0xEC,
     CHR 0xA1, CHR 0xB0, CHR 0xEC, CHR 0x82, CHR 0xAC] @ '' '' @ [CHR 0xEA,
     CHR 0xB2, CHR 0xB0, CHR 0xEA, CHR 0xB3, CHR 0xBC] @ '' '' @ [CHR 0xEB,
     CHR 0xB6, CHR 0x84, CHR 0xEC, CHR 0x84, CHR 0x9D, CHR 0xEC, CHR 0x9D,
     CHR 0x84] @ '' '' @ [CHR 0xED, CHR 0x86, CHR 0xB5, CHR 0xED, CHR 0x95,
     CHR 0xB4] @ '' '' @ [CHR 0xEB, CHR 0x8F, CHR 0x84, CHR 0xEC, CHR 0xB6,
     CHR 0x9C, CHR 0xEB, CHR 0x90, CHR 0x9C] @ '' '' @ [CHR 0xEC, CHR 0xA3,
     CHR 0xBC, CHR 0xEC, CHR 0x9A, CHR 0x94] @ '' '' @ [CHR 0xEB, CHR 0xB0,
     CHR 0x9C, CHR 0xEA, CHR 0xB2, CHR 0xAC, CHR 0xEC, CHR 0x82, CHR 0xAC,
     CHR 0xED, CHR 0x95, CHR 0xAD, CHR 0xEC, CHR 0x9E, CHR 0x85, CHR 0xEB,
     CHR 0x8B, CHR 0x88, CHR 0xEB, CHR 0x8B, CHR 0xA4] @ ''. AI '' @
     [CHR 0xEB, CHR 0xB6, CHR 0x84, CHR 0xEC, CHR 0x84, CHR 0x9D, CHR 0xEC,
     CHR 0x9D, CHR 0x84] @ '' '' @ [CHR 0xED, CHR 0x86, CHR 0xB5, CHR 0xED,
     CHR 0x95, CHR 0xB4] @ '' '' @ [CHR 0xEC, CHR 0xA3, CHR 0xBC, CHR 0xEC,
     CHR 0x9A, CHR 0x94] @ '' '' @ [CHR 0xED, CHR 0x82, CHR 0xA4, CHR 0xEC,
     CHR 0x9B, CHR 0x8C, CHR 0xEB, CHR 0x93, CHR 0x9C] @ '', '' @ [CHR 0xEA,
     CHR 0xB8, CHR 0x8D, CHR 0xEC, CHR 0xA0, CHR 0x95] @ ''/'' @ [CHR 0xEB,
     CHR 0xB6, CHR 0x80, CHR 0xEC, CHR 0xA0, CHR 0x95] @ '' '' @ [CHR 0xEC,
     CHR 0x9D, CHR 0x98, CHR 0xEA, CHR 0xB2, CHR 0xAC] @ '', '' @ [CHR 0xEA,
     CHR 0xB0, CHR 0x9C, CHR 0xEC, CHR 0x84, CHR 0xA0] @ '' '' @ [CHR 0xED,
     CHR 0x95, CHR 0x84, CHR 0xEC, CHR 0x9A, CHR 0x94, CHR 0xEC, CHR 0x82,
     CHR 0xAC, CHR 0xED, CHR 0x95, CHR 0xAD] @ '' '' @ [CHR 0xEB, CHR 0x93,
     CHR 0xB1, CHR 0xEC, CHR 0x9D, CHR 0xB4] @ '' '' @ [CHR 0xEC, CHR 0x9E,
     CHR 0x90, CHR 0xEB, CHR 0x8F, CHR 0x99, CHR 0xEC, CHR 0x9C, CHR 0xBC,
     CHR 0xEB, CHR 0xA1, CHR 0x9C] @ '' '' @ [CHR 0xEC, CHR 0xB6, CHR 0x94,
     CHR 0xEC, CHR 0xB6, CHR 0x9C, CHR 0xEB, CHR 0x90, CHR 0xA9, CHR 0xEB,
     CHR 0x8B, CHR 0x88, CHR 0xEB, CHR 0x8B, CHR 0xA4] @ ''.''"

text \<open>Section 4 of the demo report: Analysis by domain.\<close>

definition demo_title_4 :: string where
  "demo_title_4 =
     ''4. '' @ [CHR 0xEC, CHR 0x98, CHR 0x81, CHR 0xEC, CHR 0x97, CHR 0xAD,
     CHR 0xEB, CHR 0xB3, CHR 0x84] @ '' '' @ [CHR 0xEB, CHR 0xB6, CHR 0x84,
     CHR 0xEC, CHR 0x84, CHR 0x9D]"

definition demo_content_4 :: string where
  "demo_content_4 =
     [CHR 0xEA, CHR 0xB5, CHR 0x90, CHR 0xEC, CHR 0x9C, CHR 0xA1, CHR 0xEA,
     CHR 0xB3, CHR 0xBC, CHR 0xEC, CHR 0xA0, CHR 0x95] @ '', '' @ [CHR 0xED,
     CHR 0x95, CHR 0x99, CHR 0xEC, CHR 0x83, CHR 0x9D, CHR 0xEC, CHR 0x83,
     CHR 0x9D, CHR 0xED, CHR 0x99, CHR 0x9C, CHR 0xEC, CHR 0xA7, CHR 0x80,
     CHR 0xEB, CHR 0x8F, CHR 0x84] @ '', '' @ [CHR 0xEA, CHR 0xB5, CHR 0x90,
     CHR 0xEC, CHR 0x9B, CHR 0x90, CHR 0xEC, CHR 0x97, CHR 0xAD, CHR 0xEB,
     CHR 0x9F, CHR 0x89] @ '', '' @ [CHR 0xED, CHR 0x95, CHR 0x99, CHR 0xEA,
     CHR 0xB5, CHR 0x90, CHR 0xEC, CHR 0x9A, CHR 0xB4, CHR 0xEC, CHR 0x98,
     CHR 0x81] @ '' '' @ [CHR 0xEB, CHR 0x93, CHR 0xB1] @ '' '' @ [CHR 0xEA,
     CHR 0xB0, CHR 0x81] @ '' '' @ [CHR 0xEC, CHR 0x98, CHR 0x81, CHR 0xEC,
     CHR 0x97, CHR 0xAD, CHR 0xEB, CHR 0xB3, CHR 0x84] @ '' '' @ [CHR 0xEC,
     CHR 0x83, CHR 0x81, CHR 0xEC, CHR 0x84, CHR 0xB8] @ '' '' @ [CHR 0xEB,
     CHR 0xB6, CHR 0x84, CHR 0xEC, CHR 0x84, CHR 0x9D] @ '' '' @ [CHR 0xEA,
     CHR 0xB2, CHR 0xB0, CHR 0xEA, CHR 0xB3, CHR 0xBC, CHR 0xEA, CHR 0xB0,
     CHR 0x80] @ '' '' @ [CHR 0xED, CHR 0x8F, CHR 0xAC, CHR 0xED, CHR 0x95,
     CHR 0xA8, CHR 0xEB, CHR 0x90, CHR 0xA9, CHR 0xEB, CHR 0x8B, CHR 0x88,
     CHR 0xEB, CHR 0x8B, CHR 0xA4] @ ''.''"

text \<open>Section 5 of the demo report: Strengths and improvements.\<close>

definition demo_title_5 :: string where
  "demo_title_5 =
     ''5. '' @ [CHR 0xEA, CHR 0xB0, CHR 0x95, CHR 0xEC, CHR 0xA0, CHR 0x90,
     CHR 0xEA, CHR 0xB3, CHR 0xBC] @ '' '' @ [CHR 0xEA, CHR 0xB0, CHR 0x9C,
     CHR 0xEC, CHR 0x84, CHR 0xA0, CHR 0xEC, CHR 0xA0, CHR 0x90]"

definition demo_content_5 :: string where
  "demo_content_5 =
     [CHR 0xED, CHR 0x95, CHR 0x99, CHR 0xEA, CHR 0xB5, CHR 0x90, CHR 0xEC,
     CHR 0x9D, CHR 0x98] @ '' '' @ [CHR 0xEA, CHR 0xB0, CHR 0x95, CHR 0xEC,
     CHR 0xA0, CHR 0x90] @ '':'' @ [CHR 0x0A] @ ''- '' @ [CHR 0xEA,
     CHR 0xB5, CHR 0x90, CHR 0xEC, CHR 0x9C, CHR 0xA1, CHR 0xEA, CHR 0xB3,
     CHR 0xBC, CHR 0xEC, CHR 0xA0, CHR 0x95] @ '' '' @ [CHR 0xEC, CHR 0x9A,
     CHR 0xB4, CHR 0xEC, CHR 0x98, CHR 0x81, CHR 0xEC, CHR 0x9D, CHR 0x98] @
     '' '' @ [CHR 0xEC, CHR 0xA0, CHR 0x84, CHR 0xEB, CHR 0xAC, CHR 0xB8,
     CHR 0xEC, CHR 0x84, CHR 0xB1, CHR 0x0A] @ ''- '' @ [CHR 0xED, CHR 0x95,
     CHR 0x99, CHR 0xEC, CHR 0x83, CHR 0x9D] @ '' '' @ [CHR 0xEC, CHR 0xA4,
     CHR 0x91, CHR 0xEC, CHR 0x8B, CHR 0xAC] @ '' '' @ [CHR 0xEA, CHR 0xB5,
     CHR 0x90, CHR 0xEC, CHR 0x9C, CHR 0xA1] @ '' '' @ [CHR 0xED, CHR 0x99,
     CHR 0x9C, CHR 0xEB, CHR 0x8F, CHR 0x99, CHR 0x0A, CHR 0x0A, CHR 0xEA,
     CHR 0xB0, CHR 0x9C, CHR 0xEC, CHR 0x84, CHR 0xA0] @ '' '' @ [CHR 0xED,
     CHR 0x95, CHR 0x84, CHR 0xEC, CHR 0x9A, CHR 0x94] @ '' '' @ [CHR 0xEC,
     CHR 0x82, CHR 0xAC, CHR 0xED, CHR 0x95, CHR 0xAD] @ '':'' @
     [CHR 0x0A] @ ''- '' @ [CHR 0xED, CHR 0x96, CHR 0x89, CHR 0xEC,
     CHR 0xA0, CHR 0x95, CHR 0xEC, CHR 0x97, CHR 0x85, CHR 0xEB, CHR 0xAC,
     CHR 0xB4] @ '' '' @ [CHR 0xEA, CHR 0xB2, CHR 0xBD, CHR 0xEA, CHR 0xB0,
     CHR 0x90, CHR 0x0A] @ ''- '' @ [CHR 0xEC, CHR 0x8B, CHR 0x9C, CHR 0xEC,
     CHR 0x84, CHR 0xA4] @ '' '' @ [CHR 0xED, CHR 0x98, CHR 0x84, CHR 0xEB,
     CHR 0x8C, CHR 0x80, CHR 0xED, CHR 0x99, CHR 0x94]"

text \<open>Section 6 of the demo report: Recommendations and conclusion.\<close>

definition demo_title_6 :: string where
  "demo_title_6 =
     ''6. '' @ [CHR 0xEC, CHR 0xA0, CHR 0x9C, CHR 0xEC, CHR 0x96,
     CHR 0xB8] @ '' '' @ [CHR 0xEB, CHR 0xB0, CHR 0x8F] @ '' '' @ [CHR 0xEA,
     CHR 0xB2, CHR 0xB0, CHR 0xEB, CHR 0xA1, CHR 0xA0]"

definition demo_content_6 :: string where
  "demo_content_6 =
     [CHR 0xEC, CHR 0x84, CHR 0xA4, CHR 0xEB, CHR 0xAC, CHR 0xB8] @ '' '' @
     [CHR 0xEA, CHR 0xB2, CHR 0xB0, CHR 0xEA, CHR 0xB3, CHR 0xBC, CHR 0xEB,
     CHR 0xA5, CHR 0xBC] @ '' '' @ [CHR 0xEB, CHR 0xB0, CHR 0x94, CHR 0xED,
     CHR 0x83, CHR 0x95, CHR 0xEC, CHR 0x9C, CHR 0xBC, CHR 0xEB, CHR 0xA1,
     CHR 0x9C] @ '' '' @ [CHR 0xED, CHR 0x95, CHR 0x9C] @ '' '' @ [CHR 0xEC,
     CHR 0xA2, CHR 0x85, CHR 0xED, CHR 0x95, CHR 0xA9, CHR 0xEC, CHR 0xA0,
     CHR 0x81, CHR 0xEC, CHR 0x9D, CHR 0xB8] @ '' '' @ [CHR 0xEC, CHR 0xA0,
     CHR 0x9C, CHR 0xEC, CHR 0x96, CHR 0xB8, CHR 0xEA, CHR 0xB3, CHR 0xBC] @
     '' '' @ [CHR 0xED, CHR 0x96, CHR 0xA5, CHR 0xED, CHR 0x9B, CHR 0x84] @
     '' '' @ [CHR 0xEB, CHR 0xB0, CHR 0x9C, CHR 0xEC, CHR 0xA0, CHR 0x84] @
     '' '' @ [CHR 0xEB, CHR 0xB0, CHR 0xA9, CHR 0xED, CHR 0x96, CHR 0xA5,
     CHR 0xEC, CHR 0x9D, CHR 0x84] @ '' '' @ [CHR 0xEC, CHR 0xA0, CHR 0x9C,
     CHR 0xEC, CHR 0x8B, CHR 0x9C, CHR 0xED, CHR 0x95, CHR 0xA9, CHR 0xEB,
     CHR 0x8B, CHR 0x88, CHR 0xEB, CHR 0x8B, CHR 0xA4] @
     ''. Firebase Functions '' @ [CHR 0xEB, CHR 0xB0, CHR 0xB0, CHR 0xED,
     CHR 0x8F, CHR 0xAC] @ '' '' @ [CHR 0xED, CHR 0x9B, CHR 0x84] @
     '' AI'' @ [CHR 0xEA, CHR 0xB0, CHR 0x80] @ '' '' @ [CHR 0xEC, CHR 0x83,
     CHR 0x9D, CHR 0xEC, CHR 0x84, CHR 0xB1, CHR 0xED, CHR 0x95, CHR 0x9C] @
     '' '' @ [CHR 0xEB, CHR 0xA7, CHR 0x9E, CHR 0xEC, CHR 0xB6, CHR 0xA4,
     CHR 0xED, CHR 0x98, CHR 0x95] @ '' '' @ [CHR 0xEC, CHR 0xA0, CHR 0x9C,
     CHR 0xEC, CHR 0x96, CHR 0xB8, CHR 0xEC, CHR 0x9D, CHR 0xB4] @ '' '' @
     [CHR 0xED, CHR 0x8F, CHR 0xAC, CHR 0xED, CHR 0x95, CHR 0xA8, CHR 0xEB,
     CHR 0x90, CHR 0xA9, CHR 0xEB, CHR 0x8B, CHR 0x88, CHR 0xEB, CHR 0x8B,
     CHR 0xA4] @ ''.''"
record ReportSection =
  section_id :: string
  section_title :: string
  section_content :: string

record ReportStats =
  st_totalResponses :: nat
  byType :: "(string \<times> nat) list"
  ratingAvg :: "(string \<times> number \<times> nat) list"

record ReportMetadata =
  schoolName :: string
  year :: int
  projectTitle :: string
  md_generatedAt :: string
  stats :: ReportStats

record ReportData =
  report_title :: string
  report_sections :: "ReportSection list"
  metadata :: "ReportMetadata option"

text \<open>
  The state of the component: \<open>loading\<close>, \<open>report\<close> and \<open>error\<close>, and the messages
  shown by \<open>toast.error\<close>.
\<close>

record ReportGenerator_state =
  st_loading :: bool
  st_report :: "ReportData option"
  st_error :: "string option"
  st_toasts :: "string list"

definition initial_state :: ReportGenerator_state where
  "initial_state =
     \<lparr> st_loading = False, st_report = None, st_error = None, st_toasts = [] \<rparr>"

text \<open>
  What the handler reads from outside: \<open>sessionStorage.getItem("school_name")\<close>
  (\<open>None\<close> for \<open>null\<close>) and \<open>new Date().toISOString()\<close>.
\<close>

record client_env =
  session_school_name :: "string option"
  client_now :: string

text \<open>The report of the \<open>catch\<close> branch.\<close>

definition demo_report :: "client_env \<Rightarrow> ReportData" where
  "demo_report env =
     (let schoolName =
            (case session_school_name env of
               None \<Rightarrow> default_school_name
             | Some s \<Rightarrow> (if s \<noteq> [] then s else default_school_name))
      in \<lparr> report_title = schoolName @ client_title_suffix,
           report_sections =
             [\<lparr> section_id = ''1'', section_title = demo_title_1,
                section_content = demo_content_1 \<rparr>,
              \<lparr> section_id = ''2'', section_title = demo_title_2,
                section_content = demo_content_2 \<rparr>,
              \<lparr> section_id = ''3'', section_title = demo_title_3,
                section_content = demo_content_3 \<rparr>,
              \<lparr> section_id = ''4'', section_title = demo_title_4,
                section_content = demo_content_4 \<rparr>,
              \<lparr> section_id = ''5'', section_title = demo_title_5,
                section_content = demo_content_5 \<rparr>,
              \<lparr> section_id = ''6'', section_title = demo_title_6,
                section_content = demo_content_6 \<rparr>],
           metadata =
             Some \<lparr> schoolName = schoolName, year = 2025, projectTitle = project_title,
                    md_generatedAt = client_now env,
                    stats = \<lparr> st_totalResponses = 0,
                              byType = [(''teacher'', 0), (''staff'', 0), (''parent'', 0),
                                        (''student'', 0)],
                              ratingAvg = [] \<rparr> \<rparr> \<rparr>)"

text \<open>The test that opens the demo report.\<close>

definition functions_unavailable :: "string \<Rightarrow> bool" where
  "functions_unavailable errorMessage =
     (string_includes errorMessage ''not-found''
      \<or> string_includes errorMessage ''permission-denied''
      \<or> string_includes errorMessage ''unauthenticated'')"

text \<open>
  The \<open>catch\<close> block and the \<open>finally\<close> after it, on the \<open>message\<close> of what was
  caught.
\<close>

definition generateReport_catch ::
  "client_env \<Rightarrow> string field \<Rightarrow> ReportGenerator_state \<Rightarrow> ReportGenerator_state" where
  "generateReport_catch env err_message st =
     (let errorMessage = or_string err_message client_default_error;
          st1 = st \<lparr> st_error := Some errorMessage \<rparr>;
          st2 = (if functions_unavailable errorMessage
                 then st1 \<lparr> st_toasts := st_toasts st1 @ [toast_demo_report],
                            st_report := Some (demo_report env) \<rparr>
                 else st1 \<lparr> st_toasts := st_toasts st1 @ [errorMessage] \<rparr>)
      in st2 \<lparr> st_loading := False \<rparr>)"

text \<open>
  The \<open>message\<close> of the error a callable function rejects with on the client: the
  message of the \<open>HttpsError\<close> the function threw, and \<open>INTERNAL\<close> for anything else
  it threw.
\<close>

fun rejection_message :: "js_error \<Rightarrow> string field" where
  "rejection_message (HttpsError c m) = Val m"
| "rejection_message (Error n m) = Val ''INTERNAL''"

section \<open>Example data\<close>

text \<open>The text \<open>{"title":"R","sections":[]}\<close> and the value it stands for.\<close>

definition example_json :: string where
  "example_json =
     ''{'' @ [CHR 0x22] @ ''title'' @ [CHR 0x22] @ '':'' @ [CHR 0x22] @ ''R'' @ [CHR 0x22]
     @ '','' @ [CHR 0x22] @ ''sections'' @ [CHR 0x22] @ '':[]}''"

definition example_payload :: json where
  "example_payload = JObj [(''title'', JStr ''R''), (''sections'', JArr [])]"

text \<open>A parser and a serialiser that know this one text.\<close>

definition example_parse :: "string \<Rightarrow> js_error + json" where
  "example_parse s =
     (if s = example_json then Inr example_payload
      else Inl (Error ''SyntaxError'' ''Unexpected token''))"

definition example_stringify :: "json \<Rightarrow> string" where
  "example_stringify v = example_json"

definition example_output :: string where
  "example_output = ''Here is the report: '' @ example_json @ '' I hope this helps.''"

text \<open>
  A database with one project, its school, no question and one response, and one with
  nothing in it.
\<close>

definition example_db :: firestore where
  "example_db =
     \<lparr> projects = [(''p1'', \<lparr> pd_name = Val ''Evaluation'', pd_school_id = ''s1'' \<rparr>)],
       schools = [(''s1'', \<lparr> school_name = Val ''Hill School'' \<rparr>)],
       questions = [],
       responses =
         [\<lparr> rd_project_id = Val ''p1'', rd_question_id = Val ''q1'',
            rd_respondent_type = Val ''parent'', rd_response_value = Val ''4'',
            rd_session_id = Val ''s'', text_response = Absent,
            rating_response = Absent \<rparr>] \<rparr>"

definition empty_db :: firestore where
  "empty_db = \<lparr> projects = [], schools = [], questions = [], responses = [] \<rparr>"

definition example_env :: client_env where
  "example_env = \<lparr> session_school_name = None, client_now = ''2025-01-01T00:00:00.000Z'' \<rparr>"

definition example_link :: SurveyLink where
  "example_link =
     \<lparr> sl_id = ''l1'', sl_project_id = ''p1'', sl_respondent_type = parent,
       access_code = ''abc'', is_active = True \<rparr>"

section \<open>What the statistics are measured against\<close>

text \<open>
  The rating an answer stands for, in the words of the specification: the answer is an
  integer string in [1,5], that is one of the five strings \<open>1\<close> to \<open>5\<close>.
\<close>

definition integer_rating :: "string \<Rightarrow> nat option" where
  "integer_rating v =
     (if v = ''1'' then Some 1 else if v = ''2'' then Some 2 else if v = ''3'' then Some 3
      else if v = ''4'' then Some 4 else if v = ''5'' then Some 5 else None)"

definition rating_values :: "string list \<Rightarrow> nat list" where
  "rating_values vs =
     concat (map (\<lambda>v. case integer_rating v of None \<Rightarrow> [] | Some x \<Rightarrow> [x]) vs)"

text \<open>
  What the test of the code accepts: the number from 1 to 5 that \<open>parseInt\<close> reads at
  the head of an answer, whatever follows it.
\<close>

definition parseInt_rating :: "string \<Rightarrow> nat option" where
  "parseInt_rating v =
     (case parseInt v of
        Finite x \<Rightarrow> (if 1 \<le> x \<and> x \<le> 5 then Some (nat \<lfloor>x\<rfloor>) else None)
      | _ \<Rightarrow> None)"

definition parseInt_ratings :: "string list \<Rightarrow> nat list" where
  "parseInt_ratings vs =
     concat (map (\<lambda>v. case parseInt_rating v of None \<Rightarrow> [] | Some x \<Rightarrow> [x]) vs)"

text \<open>
  An answer is plain when the code reads a rating from it only if it is an integer
  string in [1,5]; \<open>3abc\<close>, \<open>4.9\<close> and \<open>05\<close> are not plain.
\<close>

definition plain_answer :: "string \<Rightarrow> bool" where
  "plain_answer v = (parseInt_rating v = None \<or> integer_rating v \<noteq> None)"

text \<open>The answers that a list of responses carries.\<close>

definition answers :: "Response list \<Rightarrow> string list" where
  "answers rs =
     concat (map (\<lambda>r. case response_value r of None \<Rightarrow> [] | Some v \<Rightarrow> [v]) rs)"

text \<open>Sum over count as a double, and 0 for no value at all.\<close>

definition mean :: "nat list \<Rightarrow> number" where
  "mean xs =
     (if xs = [] then Finite 0 else to_double (real (sum_list xs) / real (length xs)))"

text \<open>How many elements of a list have a given respondent type.\<close>

definition count_of_type :: "('a \<Rightarrow> RespondentType) \<Rightarrow> 'a list \<Rightarrow> RespondentType \<Rightarrow> nat" where
  "count_of_type f xs t = length (filter (\<lambda>x. f x = t) xs)"

text \<open>The expression of the fourth loop of \<open>loadStats\<close> on its own.\<close>

definition completion_value :: "nat \<Rightarrow> nat \<Rightarrow> number" where
  "completion_value answered asked =
     Math_round (js_mul (js_div (Finite (real answered)) (Finite (real asked))) (Finite 100))"

subsection \<open>The end-to-end example\<close>

definition response_of :: "RespondentType \<Rightarrow> string \<Rightarrow> Response" where
  "response_of t v =
     \<lparr> r_id = [], question_id = [], Response.project_id = ''p1'',
       Response.respondent_type = t, response_value = Some v, session_id = [] \<rparr>"

definition question_of :: "RespondentType \<Rightarrow> string \<Rightarrow> Question" where
  "question_of t q =
     \<lparr> q_id = q, Question.project_id = ''p1'', Question.respondent_type = t,
       question_type = rating, question_text = [], is_required = True, order_index = 0,
       section_name = None \<rparr>"

text \<open>Five teachers rate 5, 4, 3, 5, 4 and two parents rate 2, 3.\<close>

definition example_rated :: "Response list" where
  "example_rated =
     map (response_of teacher) [''5'', ''4'', ''3'', ''5'', ''4''] @
     map (response_of parent) [''2'', ''3'']"

text \<open>Ten responses: the seven ratings and three answers in words, from students.\<close>

definition example_responses :: "Response list" where
  "example_responses =
     example_rated @ map (response_of student) [''good'', ''fine'', ''more clubs'']"

text \<open>One type with 23 responses on 40 questions.\<close>

definition responses_23 :: "Response list" where
  "responses_23 = replicate 23 (response_of teacher ''5'')"

definition questions_40 :: "Question list" where
  "questions_40 = replicate 40 (question_of teacher ''q'')"

text \<open>Four questions, all for parents.\<close>

definition example_questions :: "Question list" where
  "example_questions = map (question_of parent) [''q1'', ''q2'', ''q3'', ''q4'']"

section \<open>Properties of the rounding\<close>

subsection \<open>Rounding to an integer\<close>

lemma round_half_even_cases:
  "round_half_even y = \<lfloor>y\<rfloor> \<or> round_half_even y = \<lfloor>y\<rfloor> + 1"
  by (simp add: round_half_even_def Let_def)

lemma round_half_even_error: "\<bar>of_int (round_half_even y) - y\<bar> \<le> 1 / 2"
proof -
  have f: "of_int \<lfloor>y\<rfloor> \<le> y" "y < of_int \<lfloor>y\<rfloor> + 1" by linarith+
  consider "y - of_int \<lfloor>y\<rfloor> < 1 / 2" | "1 / 2 < y - of_int \<lfloor>y\<rfloor>"
    | "y - of_int \<lfloor>y\<rfloor> = 1 / 2" by linarith
  then show ?thesis
  proof cases
    case 1
    then have "round_half_even y = \<lfloor>y\<rfloor>" by (simp add: round_half_even_def Let_def)
    with 1 f show ?thesis by simp
  next
    case 2
    then have "round_half_even y = \<lfloor>y\<rfloor> + 1" by (simp add: round_half_even_def Let_def)
    with 2 f show ?thesis by simp
  next
    case 3
    with round_half_even_cases [of y] f show ?thesis by auto
  qed
qed

lemma round_half_even_eq:
  assumes "\<bar>y - of_int m\<bar> < 1 / 2"
  shows "round_half_even y = m"
proof -
  have "\<bar>of_int (round_half_even y) - (of_int m :: real)\<bar> < 1"
    using round_half_even_error [of y] assms by linarith
  then have "\<bar>round_half_even y - m\<bar> < 1"
    by (metis of_int_diff of_int_abs of_int_less_1_iff)
  then show ?thesis by simp
qed

lemma round_half_even_of_int [simp]: "round_half_even (of_int m) = m"
  by (rule round_half_even_eq) simp

lemma round_half_even_Ints: "y \<in> \<int> \<Longrightarrow> of_int (round_half_even y) = y"
  by (auto elim: Ints_cases)

lemma round_half_even_nonneg: "0 \<le> y \<Longrightarrow> 0 \<le> round_half_even y"
  using round_half_even_cases [of y] by (auto simp: zero_le_floor)

lemma round_half_even_le_int:
  assumes "y \<le> of_int N"
  shows "round_half_even y \<le> N"
proof (cases "y = of_int N")
  case True
  then show ?thesis by simp
next
  case False
  with assms have "y < of_int N" by simp
  then have "\<lfloor>y\<rfloor> < N" by (simp add: floor_less_iff)
  with round_half_even_cases [of y] show ?thesis by auto
qed

subsection \<open>The exponent\<close>

lemma exponent_from_range: "- 1022 \<le> exponent_from n x \<and> exponent_from n x \<le> int n - 1022"
  by (induction n) auto

lemma exponent_from_lower:
  "exponent_from n x \<noteq> - 1022 \<Longrightarrow> 2 powi (exponent_from n x) \<le> x"
  by (induction n) (auto split: if_splits)

lemma exponent_from_ge:
  "2 powi j \<le> x \<Longrightarrow> j \<le> int n - 1022 \<Longrightarrow> j \<le> exponent_from n x"
proof (induction n)
  case 0
  then show ?case by simp
next
  case (Suc n)
  show ?case
  proof (cases "2 powi (int (Suc n) - 1022) \<le> x")
    case True
    with Suc.prems show ?thesis by simp
  next
    case False
    with Suc.prems have "j \<noteq> int (Suc n) - 1022" by auto
    with Suc.prems have "j \<le> int n - 1022" by simp
    with Suc.IH Suc.prems False show ?thesis by simp
  qed
qed

lemma exponent_from_upper:
  assumes "exponent_from n x < int n - 1022"
  shows "x < 2 powi (exponent_from n x + 1)"
proof (rule ccontr)
  assume "\<not> x < 2 powi (exponent_from n x + 1)"
  then have "2 powi (exponent_from n x + 1) \<le> x" by simp
  from exponent_from_ge [OF this, of n] assms show False by simp
qed

lemma exponent_from_eq:
  assumes "e = - 1022 \<or> 2 powi e \<le> x" and "x < 2 powi (e + 1)"
    and "- 1022 \<le> e" and "e \<le> int n - 1022"
  shows "exponent_from n x = e"
proof -
  have le: "e \<le> exponent_from n x"
    using assms exponent_from_ge [of e x n] exponent_from_range [of n x] by auto
  have "exponent_from n x \<le> e"
  proof (rule ccontr)
    assume "\<not> exponent_from n x \<le> e"
    then have gt: "e + 1 \<le> exponent_from n x" by simp
    with assms(3) have "exponent_from n x \<noteq> - 1022" by simp
    then have "2 powi (exponent_from n x) \<le> x" by (rule exponent_from_lower)
    moreover have "(2::real) powi (e + 1) \<le> 2 powi (exponent_from n x)"
      using gt by (intro power_int_increasing) auto
    ultimately show False using assms(2) by simp
  qed
  with le show ?thesis by simp
qed

lemma double_exponent_eq:
  assumes "e = - 1022 \<or> 2 powi e \<le> \<bar>x\<bar>" and "\<bar>x\<bar> < 2 powi (e + 1)"
    and "- 1022 \<le> e" and "e \<le> 1023"
  shows "double_exponent x = e"
  unfolding double_exponent_def using assms by (intro exponent_from_eq) auto

lemma double_exponent_range: "- 1022 \<le> double_exponent x" "double_exponent x \<le> 1023"
  using exponent_from_range [of 2045 "\<bar>x\<bar>"] by (simp_all add: double_exponent_def)

lemma double_exponent_le:
  assumes "\<bar>x\<bar> \<le> 2 powi k" and "- 1022 \<le> k"
  shows "double_exponent x \<le> k"
proof (cases "double_exponent x = - 1022")
  case True
  with assms show ?thesis by simp
next
  case False
  then have "2 powi (double_exponent x) \<le> \<bar>x\<bar>"
    unfolding double_exponent_def by (rule exponent_from_lower)
  with assms have le: "(2::real) powi (double_exponent x) \<le> 2 powi k" by simp
  show ?thesis
  proof (rule ccontr)
    assume "\<not> double_exponent x \<le> k"
    then have "(2::real) powi k < 2 powi (double_exponent x)"
      by (intro power_int_strict_increasing) auto
    with le show False by simp
  qed
qed

subsection \<open>Rounding to a double\<close>

lemma double_overflow_pos [simp]: "0 < double_overflow"
  by (simp add: double_overflow_def)

lemma to_double_0 [simp]: "to_double 0 = Finite 0"
  using double_overflow_pos by (simp add: to_double_def Let_def round_half_even_def not_le)

lemma to_double_nearest:
  assumes "0 \<le> x"
    and "e = - 1022 \<or> 2 powi e \<le> x" and "x < 2 powi (e + 1)"
    and "- 1022 \<le> e" and "e \<le> 1023"
    and "\<bar>x / 2 powi (e - 52) - of_int m\<bar> < 1 / 2"
    and "of_int m * 2 powi (e - 52) < double_overflow"
  shows "to_double x = Finite (of_int m * 2 powi (e - 52))"
proof -
  have e: "double_exponent x = e"
    using assms by (intro double_exponent_eq) auto
  have ax: "\<bar>x\<bar> = x" using assms(1) by simp
  have m: "round_half_even (x / 2 powi (e - 52)) = m"
    using assms(6) by (rule round_half_even_eq)
  have r: "2 powi (e - 52) * of_int m < double_overflow"
    using assms(7) by (simp add: mult.commute)
  show ?thesis
    unfolding to_double_def Let_def e ax m using r assms(1) by (simp add: mult.commute)
qed

lemma to_double_bounded:
  assumes "0 \<le> x" and "x \<le> c" and "c / 2 powi (double_exponent x - 52) \<in> \<int>"
    and "c < double_overflow"
  shows "\<exists>y. to_double x = Finite y \<and> 0 \<le> y \<and> y \<le> c"
proof -
  let ?u = "(2::real) powi (double_exponent x - 52)"
  have u: "0 < ?u" by simp
  from assms(3) obtain N :: int where N: "c / ?u = of_int N" by (auto elim: Ints_cases)
  have "\<bar>x\<bar> / ?u \<le> c / ?u" using assms u by (simp add: divide_right_mono)
  with N have "round_half_even (\<bar>x\<bar> / ?u) \<le> N" by (simp add: round_half_even_le_int)
  then have "of_int (round_half_even (\<bar>x\<bar> / ?u)) \<le> (of_int N :: real)" by simp
  then have "?u * of_int (round_half_even (\<bar>x\<bar> / ?u)) \<le> ?u * of_int N"
    using u by (simp add: mult_left_mono)
  also have "?u * of_int N = c" using N u by (simp add: field_simps)
  finally have le: "?u * of_int (round_half_even (\<bar>x\<bar> / ?u)) \<le> c" .
  have "0 \<le> round_half_even (\<bar>x\<bar> / ?u)" using u by (intro round_half_even_nonneg) simp
  then have ge: "0 \<le> ?u * of_int (round_half_even (\<bar>x\<bar> / ?u))" using u by simp
  from le assms(4) have "\<not> double_overflow \<le> ?u * of_int (round_half_even (\<bar>x\<bar> / ?u))" by simp
  with le ge assms(1) show ?thesis by (simp add: to_double_def Let_def)
qed

lemma to_double_error:
  assumes "to_double x = Finite y"
  shows "\<bar>y - x\<bar> \<le> 2 powi (double_exponent x - 53)"
proof -
  let ?u = "(2::real) powi (double_exponent x - 52)"
  let ?r = "?u * of_int (round_half_even (\<bar>x\<bar> / ?u))"
  have u: "0 < ?u" by simp
  have half: "?u / 2 = 2 powi (double_exponent x - 53)"
    by (simp add: power_int_diff)
  have "\<bar>?r - \<bar>x\<bar>\<bar> = ?u * \<bar>of_int (round_half_even (\<bar>x\<bar> / ?u)) - \<bar>x\<bar> / ?u\<bar>"
  proof -
    have "?r - \<bar>x\<bar> = ?u * (of_int (round_half_even (\<bar>x\<bar> / ?u)) - \<bar>x\<bar> / ?u)"
      using u by (simp add: field_simps)
    then show ?thesis using u by (simp add: abs_mult)
  qed
  also have "\<dots> \<le> ?u * (1 / 2)"
    using u round_half_even_error [of "\<bar>x\<bar> / ?u"] by (intro mult_left_mono) auto
  finally have err: "\<bar>?r - \<bar>x\<bar>\<bar> \<le> 2 powi (double_exponent x - 53)" using half by simp
  from assms have "y = (if 0 \<le> x then ?r else - ?r)"
    by (auto simp: to_double_def Let_def split: if_splits)
  with err show ?thesis by (auto simp: abs_if split: if_splits)
qed

lemma powi_Ints: "0 \<le> n \<Longrightarrow> (2::real) powi n \<in> \<int>"
  by (simp add: power_int_nonneg_exp)

lemma to_double_of_int:
  assumes "\<bar>k\<bar> < 2 ^ 53"
  shows "to_double (of_int k) = Finite (of_int k)"
proof -
  let ?x = "of_int k :: real"
  let ?e = "double_exponent ?x"
  let ?u = "(2::real) powi (?e - 52)"
  have ax: "\<bar>?x\<bar> < 2 ^ 53"
  proof -
    have "(of_int \<bar>k\<bar> :: real) < of_int (2 ^ 53)" using assms by (simp only: of_int_less_iff)
    then show ?thesis by simp
  qed
  then have "\<bar>?x\<bar> \<le> 2 powi 53" by simp
  then have e53: "?e \<le> 53" by (rule double_exponent_le) simp
  have e52: "?e \<le> 52"
  proof (rule ccontr)
    assume "\<not> ?e \<le> 52"
    with e53 have e: "?e = 53" by simp
    then have "?e \<noteq> - 1022" by simp
    then have "2 powi ?e \<le> \<bar>?x\<bar>"
      unfolding double_exponent_def by (rule exponent_from_lower)
    with e ax show False by simp
  qed
  have "\<bar>?x\<bar> / ?u = \<bar>?x\<bar> * 2 powi (52 - ?e)"
    by (simp add: power_int_diff field_simps)
  also have "\<dots> = of_int (\<bar>k\<bar> * 2 ^ nat (52 - ?e))"
    using e52 by (simp add: power_int_nonneg_exp)
  finally have q: "\<bar>?x\<bar> / ?u = of_int (\<bar>k\<bar> * 2 ^ nat (52 - ?e))" .
  have r: "?u * of_int (round_half_even (\<bar>?x\<bar> / ?u)) = \<bar>?x\<bar>"
    unfolding q round_half_even_of_int unfolding q [symmetric] by simp
  have "\<bar>?x\<bar> < double_overflow"
  proof -
    have "(2::real) ^ 53 \<le> double_overflow" by (simp add: double_overflow_def)
    with ax show ?thesis by linarith
  qed
  then show ?thesis
    unfolding to_double_def Let_def r by (auto simp: abs_if)
qed

section \<open>Properties of the grade conversion\<close>

lemma level_gradeInfoMap: "level (gradeInfoMap g) = g"
  by (cases g) simp_all

lemma level_convertToGrade_Finite:
  "level (convertToGrade (Finite x)) =
     (if 4.2 \<le> x then excellent else if 3.4 \<le> x then good
      else if 2.6 \<le> x then average else poor)"
  by (simp add: convertToGrade_def gradeThresholds_def level_gradeInfoMap)


text \<open>
  C6. \<open>convertToGrade\<close> returns one of the four grade records for every finite
  score, and it is monotonic: a score that is not smaller gets a grade that is not lower,
  in the order poor < average < good < excellent.
\<close>

theorem convertToGrade_total_monotonic:
  assumes "x \<le> y"
  shows "grade_rank (level (convertToGrade (Finite x)))
           \<le> grade_rank (level (convertToGrade (Finite y)))
         \<and> convertToGrade (Finite x) = gradeInfoMap (level (convertToGrade (Finite x)))
         \<and> convertToGrade (Finite y) = gradeInfoMap (level (convertToGrade (Finite y)))"
proof -
  have total: "convertToGrade n = gradeInfoMap (level (convertToGrade n))" for n
    by (simp add: convertToGrade_def level_gradeInfoMap)
  have mono: "grade_rank (level (convertToGrade (Finite x)))
                \<le> grade_rank (level (convertToGrade (Finite y)))"
    using assms by (simp add: level_convertToGrade_Finite)
  from mono total [of "Finite x"] total [of "Finite y"] show ?thesis by blast
qed

theorem convertToGrade_total_monotonic_witness:
  "(3::real) \<le> 4.5
   \<and> grade_rank (level (convertToGrade (Finite 3))) = 1
   \<and> grade_rank (level (convertToGrade (Finite 4.5))) = 3
   \<and> grade_rank (level (convertToGrade (Finite 3)))
        \<le> grade_rank (level (convertToGrade (Finite 4.5)))"
proof -
  have h: "(3::real) \<le> 4.5" by simp
  have r: "grade_rank (level (convertToGrade (Finite 3))) = 1"
    "grade_rank (level (convertToGrade (Finite 4.5))) = 3"
    by (simp_all add: level_convertToGrade_Finite)
  from h r convertToGrade_total_monotonic [OF h] show ?thesis by blast
qed


section \<open>Properties of the statistics\<close>

subsection \<open>Counting by type\<close>

lemma map_of_rec_set: "map_of (rec_set m k v) = (map_of m)(k \<mapsto> v)"
  by (induction m) auto

lemma keys_rec_set:
  "map fst (rec_set m k v) = (if k \<in> fst ` set m then map fst m else map fst m @ [k])"
  by (induction m) force+

lemma rec_get_count_up:
  "rec_get (count_up m k) k' = (if k' = k then Some (get_or m k 0 + 1) else rec_get m k')"
  by (simp add: count_up_def rec_get_def map_of_rec_set)

lemma get_or_zero: "get_or m k 0 = (case rec_get m k of None \<Rightarrow> 0 | Some n \<Rightarrow> n)"
  by (simp add: get_or_def split: option.splits)

lemma rec_get_foldl_count_up:
  "rec_get (foldl (\<lambda>m x. count_up m (f x)) m xs) k =
     (if filter (\<lambda>x. f x = k) xs = [] then rec_get m k
      else Some (get_or m k 0 + length (filter (\<lambda>x. f x = k) xs)))"
proof (induction xs arbitrary: m)
  case Nil
  then show ?case by simp
next
  case (Cons x xs)
  show ?case
    by (simp add: Cons.IH rec_get_count_up get_or_zero)
qed

lemma rec_get_Nil: "rec_get [] k = None"
  by (simp add: rec_get_def)

lemma rec_get_counts:
  "rec_get (foldl (\<lambda>m x. count_up m (f x)) [] xs) k =
     (if count_of_type f xs k = 0 then None else Some (count_of_type f xs k))"
  by (simp add: rec_get_foldl_count_up count_of_type_def get_or_zero rec_get_Nil)

lemma keys_foldl_count_up:
  "set (map fst (foldl (\<lambda>m x. count_up m (f x)) m xs)) = fst ` set m \<union> f ` set xs"
proof (induction xs arbitrary: m)
  case Nil
  then show ?case by simp
next
  case (Cons x xs)
  have "set (map fst (count_up m (f x))) = insert (f x) (fst ` set m)"
    by (auto simp: count_up_def keys_rec_set)
  then show ?case using Cons.IH [of "count_up m (f x)"] by auto
qed

lemma sum_rec_set:
  "sum_list (map snd (rec_set m k (get_or m k 0 + 1))) = Suc (sum_list (map snd m))"
  by (induction m) (auto simp: get_or_def rec_get_def)

lemma sum_count_up: "sum_list (map snd (count_up m k)) = Suc (sum_list (map snd m))"
  by (simp only: count_up_def sum_rec_set)

lemma sum_foldl_count_up:
  "sum_list (map snd (foldl (\<lambda>m x. count_up m (f x)) m xs)) = sum_list (map snd m) + length xs"
  by (induction xs arbitrary: m) (simp_all add: sum_count_up)

subsection \<open>Evaluating parseInt\<close>

lemma trim_start_none: "white_space_length s = 0 \<Longrightarrow> trim_start s = s"
  by (simp add: trim_start.simps [of s])

lemma trim_start_some:
  "white_space_length s = 1 \<Longrightarrow> trim_start s = trim_start (drop 1 s)"
  "white_space_length s = 2 \<Longrightarrow> trim_start s = trim_start (drop 2 s)"
  "white_space_length s = 3 \<Longrightarrow> trim_start s = trim_start (drop 3 s)"
  by (simp_all add: trim_start.simps [of s])

lemmas parseInt_eval = parseInt_def digit_of_def white_space_length_def
  trim_start_none trim_start_some

lemma parseInt_examples:
  "parseInt ''1'' = Finite 1" "parseInt ''2'' = Finite 2" "parseInt ''3'' = Finite 3"
  "parseInt ''4'' = Finite 4" "parseInt ''5'' = Finite 5"
  "parseInt ''good'' = NaN" "parseInt ''fine'' = NaN" "parseInt ''more clubs'' = NaN"
  "parseInt ''3abc'' = Finite 3" "parseInt ''4.9'' = Finite 4"
  by (simp_all add: parseInt_eval)

lemma parseInt_Nil: "parseInt [] = NaN"
  by (simp add: parseInt_eval)

lemma parseInt_integer: "parseInt v = Finite x \<Longrightarrow> x \<in> \<int>"
  by (auto simp: parseInt_def Let_def split: list.splits option.splits if_splits)


subsection \<open>What the code reads as a rating\<close>

lemma parseInt_rating_Some:
  assumes "parseInt_rating v = Some k"
  shows "parseInt v = Finite (real k)" and "1 \<le> k" and "k \<le> 5"
proof -
  from assms obtain x where p: "parseInt v = Finite x" and r: "1 \<le> x" "x \<le> 5"
    and k: "k = nat \<lfloor>x\<rfloor>"
    by (auto simp: parseInt_rating_def split: number.splits if_splits)
  from parseInt_integer [OF p] obtain i :: int where i: "x = of_int i"
    by (auto elim: Ints_cases)
  with r have "1 \<le> i" "i \<le> 5" by simp_all
  with i k have "real k = x" "1 \<le> k" "k \<le> 5" by simp_all
  with p show "parseInt v = Finite (real k)" and "1 \<le> k" and "k \<le> 5" by simp_all
qed

lemma parseInt_rating_None:
  assumes "parseInt_rating v = None"
  shows "\<not> (\<not> isNaN (parseInt v) \<and> js_ge (parseInt v) (Finite 1) \<and> js_le (parseInt v) (Finite 5))"
  using assms by (cases "parseInt v") (auto simp: parseInt_rating_def js_le_def split: if_splits)

lemma parseInt_rating_Nil: "parseInt_rating [] = None"
  by (simp add: parseInt_rating_def parseInt_Nil)

lemma integer_rating_parseInt:
  "integer_rating v = Some k \<Longrightarrow> parseInt_rating v = Some k"
  by (auto simp: integer_rating_def parseInt_rating_def parseInt_examples split: if_splits)

lemma plain_ratings:
  assumes "\<forall>v\<in>set vs. plain_answer v"
  shows "parseInt_ratings vs = rating_values vs"
  using assms
proof (induction vs)
  case Nil
  then show ?case by (simp add: parseInt_ratings_def rating_values_def)
next
  case (Cons v vs)
  then have v: "plain_answer v" and IH: "parseInt_ratings vs = rating_values vs" by simp_all
  have "parseInt_rating v = integer_rating v"
  proof (cases "integer_rating v")
    case None
    with v show ?thesis by (simp add: plain_answer_def)
  next
    case (Some k)
    then show ?thesis by (simp add: integer_rating_parseInt)
  qed
  with IH show ?case by (simp add: parseInt_ratings_def rating_values_def)
qed

lemma to_double_of_nat: "n < 2 ^ 53 \<Longrightarrow> to_double (real n) = Finite (real n)"
  using to_double_of_int [of "int n"] by simp

lemma parseInt_ratings_single:
  "parseInt_ratings [v] = (case parseInt_rating v of None \<Rightarrow> [] | Some k \<Rightarrow> [k])"
  by (simp add: parseInt_ratings_def)

lemma parseInt_ratings_append:
  "parseInt_ratings (xs @ ys) = parseInt_ratings xs @ parseInt_ratings ys"
  by (simp add: parseInt_ratings_def)

lemma parseInt_ratings_Cons:
  "parseInt_ratings (v # vs) = parseInt_ratings [v] @ parseInt_ratings vs"
  by (simp add: parseInt_ratings_def)

lemma parseInt_ratings_bound:
  "sum_list (parseInt_ratings vs) \<le> 5 * length vs" "length (parseInt_ratings vs) \<le> length vs"
proof (induction vs)
  case Nil
  show "sum_list (parseInt_ratings []) \<le> 5 * length ([] :: string list)"
    and "length (parseInt_ratings []) \<le> length ([] :: string list)"
    by (simp_all add: parseInt_ratings_def)
next
  case (Cons v vs)
  have s: "sum_list (parseInt_ratings [v]) \<le> 5" "length (parseInt_ratings [v]) \<le> 1"
    using parseInt_rating_Some(3) [of v]
    by (auto simp: parseInt_ratings_single split: option.splits)
  show "sum_list (parseInt_ratings (v # vs)) \<le> 5 * length (v # vs)"
    using Cons.IH(1) s(1) by (simp add: parseInt_ratings_Cons [of v vs])
  show "length (parseInt_ratings (v # vs)) \<le> length (v # vs)"
    using Cons.IH(2) s(2) by (simp add: parseInt_ratings_Cons [of v vs])
qed

lemma answers_Cons: "answers (r # rs) = answers [r] @ answers rs"
  by (simp add: answers_def)

lemma answers_length: "length (answers rs) \<le> length rs"
  by (induction rs) (auto simp: answers_def split: option.splits)

lemma rating_step_eq:
  assumes "s + 5 < 2 ^ 53"
  shows "rating_step (Finite (real s), n) r =
     (Finite (real (s + sum_list (parseInt_ratings (answers [r])))),
      n + length (parseInt_ratings (answers [r])))"
proof (cases "response_value r")
  case None
  then show ?thesis by (simp add: rating_step_def answers_def parseInt_ratings_def)
next
  case (Some v)
  then have a: "answers [r] = [v]" by (simp add: answers_def)
  show ?thesis
  proof (cases "parseInt_rating v")
    case None
    have test: "(\<not> isNaN (parseInt v) \<and> js_ge (parseInt v) (Finite 1)
                   \<and> js_le (parseInt v) (Finite 5)) = False"
      using parseInt_rating_None [OF None] by blast
    have "rating_step (Finite (real s), n) r = (Finite (real s), n)"
      using Some by (simp add: rating_step_def Let_def test)
    with None a show ?thesis by (simp add: parseInt_ratings_single)
  next
    case (Some k)
    note k = parseInt_rating_Some [OF Some]
    have ne: "v \<noteq> []" using Some parseInt_rating_Nil by auto
    have "s + k < 2 ^ 53" using assms k(3) by simp
    then have "to_double (real (s + k)) = Finite (real (s + k))" by (rule to_double_of_nat)
    then have add: "js_add (Finite (real s)) (Finite (real k)) = Finite (real (s + k))" by simp
    have "rating_step (Finite (real s), n) r = (Finite (real (s + k)), n + 1)"
      using \<open>response_value r = Some v\<close> ne k add
      by (simp add: rating_step_def Let_def js_le_def)
    with Some a show ?thesis by (simp add: parseInt_ratings_single)
  qed
qed

lemma foldl_rating_step:
  assumes "s + 5 * length rs < 2 ^ 53"
  shows "foldl rating_step (Finite (real s), n) rs =
     (Finite (real (s + sum_list (parseInt_ratings (answers rs)))),
      n + length (parseInt_ratings (answers rs)))"
  using assms
proof (induction rs arbitrary: s n)
  case Nil
  then show ?case by (simp add: answers_def parseInt_ratings_def)
next
  case (Cons r rs)
  let ?v = "parseInt_ratings (answers [r])"
  have b: "sum_list ?v \<le> 5"
    using parseInt_ratings_bound(1) [of "answers [r]"] answers_length [of "[r]"] by simp
  from Cons.prems have s5: "s + 5 < 2 ^ 53" by simp
  from Cons.prems b have next_ok: "(s + sum_list ?v) + 5 * length rs < 2 ^ 53" by simp
  have split: "parseInt_ratings (answers (r # rs)) = ?v @ parseInt_ratings (answers rs)"
    using answers_Cons [of r rs] by (simp add: parseInt_ratings_append)
  have "foldl rating_step (Finite (real s), n) (r # rs)
          = foldl rating_step (Finite (real (s + sum_list ?v)), n + length ?v) rs"
    by (simp only: foldl_Cons rating_step_eq [OF s5])
  also have "\<dots> = (Finite (real ((s + sum_list ?v) + sum_list (parseInt_ratings (answers rs)))),
                     (n + length ?v) + length (parseInt_ratings (answers rs)))"
    by (rule Cons.IH [OF next_ok])
  finally show ?case by (simp add: split add.assoc)
qed

lemma averageRating_code:
  assumes "length rs < 2 ^ 32"
  shows "averageRating (loadStats qc rc rs qs) = mean (parseInt_ratings (answers rs))"
proof -
  have "0 + 5 * length rs < (2::nat) ^ 53" using assms by simp
  from foldl_rating_step [OF this, of 0]
  have t: "rating_totals rs =
     (Finite (real (sum_list (parseInt_ratings (answers rs)))),
      length (parseInt_ratings (answers rs)))"
    by (simp add: rating_totals_def)
  show ?thesis
    by (simp add: loadStats_def t mean_def Let_def)
qed

lemma filter_is_rating:
  "filter is_rating (map parseInt vs) = map (\<lambda>k. Finite (real k)) (parseInt_ratings vs)"
proof (induction vs)
  case Nil
  then show ?case by (simp add: parseInt_ratings_def)
next
  case (Cons v vs)
  show ?case
  proof (cases "parseInt_rating v")
    case None
    have "\<not> is_rating (parseInt v)"
      using parseInt_rating_None [OF None] by (simp add: is_rating_def)
    with None Cons show ?thesis
      by (simp add: parseInt_ratings_Cons [of v vs] parseInt_ratings_single)
  next
    case (Some k)
    note k = parseInt_rating_Some [OF Some]
    have "is_rating (parseInt v)" using k by (simp add: is_rating_def js_le_def)
    with Some Cons k(1) show ?thesis
      by (simp add: parseInt_ratings_Cons [of v vs] parseInt_ratings_single)
  qed
qed

lemma foldl_js_add:
  assumes "s + sum_list ks < 2 ^ 53"
  shows "foldl js_add (Finite (real s)) (map (\<lambda>k. Finite (real k)) ks)
           = Finite (real (s + sum_list ks))"
  using assms
proof (induction ks arbitrary: s)
  case Nil
  then show ?case by simp
next
  case (Cons k ks)
  then have "s + k < 2 ^ 53" by simp
  then have "to_double (real (s + k)) = Finite (real (s + k))" by (rule to_double_of_nat)
  then have add: "js_add (Finite (real s)) (Finite (real k)) = Finite (real (s + k))" by simp
  from Cons.prems have "(s + k) + sum_list ks < 2 ^ 53" by simp
  from Cons.IH [OF this] add show ?case by (simp add: add.assoc)
qed

lemma calculateAverage_code:
  assumes "length vs < 2 ^ 32"
  shows "calculateAverageFromResponses vs = mean (parseInt_ratings vs)"
proof -
  have "sum_list (parseInt_ratings vs) < 2 ^ 53"
    using parseInt_ratings_bound(1) [of vs] assms by simp
  then have "0 + sum_list (parseInt_ratings vs) < 2 ^ 53" by simp
  from foldl_js_add [OF this]
  have f: "foldl js_add (Finite 0) (map (\<lambda>k. Finite (real k)) (parseInt_ratings vs))
             = Finite (real (sum_list (parseInt_ratings vs)))" by simp
  show ?thesis
    by (simp add: calculateAverageFromResponses_def filter_is_rating f mean_def Let_def)
qed

subsection \<open>The example\<close>

lemma to_double_26_7: "to_double (26 / 7) = Finite (4181913939701175 / 2 ^ 50)"
  using to_double_nearest [of "26 / 7" 1 8363827879402350]
  by (simp add: double_overflow_def)

lemma ex_integer_ratings: "rating_values (answers example_responses) = [5, 4, 3, 5, 4, 2, 3]"
  by (simp add: example_responses_def example_rated_def response_of_def answers_def
      rating_values_def integer_rating_def)

lemma ex_plain: "\<forall>v\<in>set (answers example_responses). plain_answer v"
  by (simp add: example_responses_def example_rated_def response_of_def answers_def
      plain_answer_def integer_rating_def parseInt_rating_def parseInt_examples)

lemma ex_length: "length example_responses = 10"
  by (simp add: example_responses_def example_rated_def)

lemma ex_types0: "typeCount_of example_responses = [(teacher, 5), (parent, 2), (student, 3)]"
  by (simp add: typeCount_of_def example_responses_def example_rated_def response_of_def
        count_up_def get_or_def rec_get_def)

lemma ex_types:
  "responsesByType (loadStats 0 10 example_responses []) = [(teacher, 5), (parent, 2), (student, 3)]"
  by (simp add: loadStats_def ex_types0 split_def Let_def)

lemma ex_rated_types:
  "responsesByType (loadStats 0 7 example_rated []) = [(teacher, 5), (parent, 2)]"
  by (simp add: loadStats_def typeCount_of_def example_rated_def response_of_def
        count_up_def get_or_def rec_get_def split_def Let_def)

lemma ex_avg:
  "averageRating (loadStats 0 10 example_responses []) = Finite (4181913939701175 / 2 ^ 50)"
proof -
  have "length example_responses < 2 ^ 32" by (simp add: ex_length)
  from averageRating_code [OF this, of 0 10 "[]"] plain_ratings [OF ex_plain]
  show ?thesis by (simp add: ex_integer_ratings mean_def to_double_26_7)
qed

lemma ex_grade: "level (overallGrade (loadStats 0 10 example_responses [])) = good"
  by (simp add: overallGrade_def ex_avg level_convertToGrade_Finite)

lemma ex_lax:
  "averageRating (loadStats 0 1 [response_of student ''3abc''] []) = Finite 3"
proof -
  have "length [response_of student ''3abc''] < 2 ^ 32" by simp
  from averageRating_code [OF this, of 0 1 "[]"]
  have "averageRating (loadStats 0 1 [response_of student ''3abc''] []) = to_double (real 3)"
    by (simp add: answers_def response_of_def parseInt_ratings_def parseInt_rating_def
        parseInt_examples mean_def)
  also have "to_double (real 3) = Finite (real 3)" by (rule to_double_of_nat) simp
  finally show ?thesis by simp
qed

lemma sum_responsesByType:
  "sum_list (map snd (responsesByType (loadStats qc rc rs qs))) = length rs"
  by (simp add: loadStats_def split_def Let_def typeCount_of_def sum_foldl_count_up)

lemma responsesByType_per_type:
  "rec_get (responsesByType (loadStats qc rc rs qs)) t =
     (if count_of_type Response.respondent_type rs t = 0 then None
      else Some (count_of_type Response.respondent_type rs t))"
  by (simp add: loadStats_def split_def Let_def typeCount_of_def rec_get_counts)

subsection \<open>The claim on the average\<close>

text \<open>
  C3, as amended. Take fewer than \<open>2^32\<close> responses whose answers are plain: an answer
  from which the code reads a number from 1 to 5 is an integer string in [1,5]. Then
  the average rating is the sum over the count, as a double, of exactly the answers
  that are an integer string in [1,5], and 0 when there is none, in \<open>loadStats\<close> and
  in \<open>calculateAverageFromResponses\<close>. \<open>responsesByType\<close> counts every response
  under its respondent type, rated or not: the entry of a type is the number of its
  responses, and a type without a response has none. For ten responses, five rated 5,
  4, 3, 5, 4 by teachers, two rated 2, 3 by parents and three student answers in words,
  the average is the double nearest to 26/7, which is 3.71428..., the grade is good and
  the counts are teacher 5, parent 2, student 3; the seven ratings alone give teacher 5,
  parent 2.
\<close>

theorem averageRating_is_mean_of_ratings:
  assumes "length rs < 2 ^ 32" and "\<forall>v\<in>set (answers rs). plain_answer v"
    and "length vs < 2 ^ 32" and "\<forall>v\<in>set vs. plain_answer v"
  shows "averageRating (loadStats qc rc rs qs) = mean (rating_values (answers rs))
   \<and> calculateAverageFromResponses vs = mean (rating_values vs)
   \<and> rec_get (responsesByType (loadStats qc rc rs qs)) t =
        (if count_of_type Response.respondent_type rs t = 0 then None
         else Some (count_of_type Response.respondent_type rs t))
   \<and> sum_list (map snd (responsesByType (loadStats qc rc rs qs))) = length rs
   \<and> length example_responses = 10
   \<and> averageRating (loadStats 0 10 example_responses []) = to_double (26 / 7)
   \<and> averageRating (loadStats 0 10 example_responses [])
        = Finite (4181913939701175 / 2 ^ 50)
   \<and> (3.71428 :: real) < 4181913939701175 / 2 ^ 50
   \<and> (4181913939701175 / 2 ^ 50 :: real) < 3.71429
   \<and> level (overallGrade (loadStats 0 10 example_responses [])) = good
   \<and> responsesByType (loadStats 0 10 example_responses [])
        = [(teacher, 5), (parent, 2), (student, 3)]
   \<and> responsesByType (loadStats 0 7 example_rated []) = [(teacher, 5), (parent, 2)]"
proof -
  have a: "averageRating (loadStats qc rc rs qs) = mean (rating_values (answers rs))"
    using averageRating_code [OF assms(1), of qc rc qs] plain_ratings [OF assms(2)] by simp
  have c: "calculateAverageFromResponses vs = mean (rating_values vs)"
    using calculateAverage_code [OF assms(3)] plain_ratings [OF assms(4)] by simp
  have n: "(3.71428 :: real) < 4181913939701175 / 2 ^ 50"
    "(4181913939701175 / 2 ^ 50 :: real) < 3.71429" by simp_all
  have d: "averageRating (loadStats 0 10 example_responses []) = to_double (26 / 7)"
    by (simp only: ex_avg to_double_26_7)
  from a c responsesByType_per_type [of qc rc rs qs t] sum_responsesByType [of qc rc rs qs]
    ex_length d ex_avg n ex_grade ex_types ex_rated_types
  show ?thesis by blast
qed

theorem averageRating_is_mean_of_ratings_witness:
  "length example_responses < 2 ^ 32
   \<and> length [''4'', ''x'', ''2''] < 2 ^ 32
   \<and> averageRating (loadStats 0 10 example_responses example_questions)
       = mean [5, 4, 3, 5, 4, 2, 3]
   \<and> calculateAverageFromResponses [''4'', ''x'', ''2''] = Finite 3
   \<and> rec_get (responsesByType (loadStats 0 10 example_responses example_questions)) student
       = Some 3"
proof -
  have h1: "length example_responses < 2 ^ 32" by (simp add: ex_length)
  have h3: "length [''4'', ''x'', ''2''] < 2 ^ 32" by simp
  have px: "parseInt ''x'' = NaN" by (simp add: parseInt_eval)
  have h4: "\<forall>v\<in>set [''4'', ''x'', ''2'']. plain_answer v"
    by (simp add: plain_answer_def integer_rating_def parseInt_rating_def parseInt_examples px)
  have m: "mean (rating_values [''4'', ''x'', ''2'']) = Finite 3"
    using to_double_of_nat [of 3] by (simp add: rating_values_def integer_rating_def mean_def)
  have cnt: "count_of_type Response.respondent_type example_responses student = 3"
    by (simp add: count_of_type_def example_responses_def example_rated_def response_of_def)
  from averageRating_is_mean_of_ratings [OF h1 ex_plain h3 h4, of 0 10 example_questions student]
    h1 h3
  show ?thesis by (simp add: ex_integer_ratings m cnt)
qed

text \<open>
  C3 as it was stated fails twice. On the ten responses of the example, five rated by
  teachers and two by parents, \<open>responsesByType\<close> is not teacher 5, parent 2, since the
  three other responses are counted too. And the one answer \<open>3abc\<close>, which is not an
  integer string, is averaged as the rating 3, where no rating gives 0.
\<close>

theorem responsesByType_example_counterexample:
  "length example_responses = 10
   \<and> map (\<lambda>r. (Response.respondent_type r, response_value r)) (take 7 example_responses)
       = [(teacher, Some ''5''), (teacher, Some ''4''), (teacher, Some ''3''),
          (teacher, Some ''5''), (teacher, Some ''4''), (parent, Some ''2''),
          (parent, Some ''3'')]
   \<and> rec_get (responsesByType (loadStats 0 10 example_responses [])) student = Some 3
   \<and> responsesByType (loadStats 0 10 example_responses []) \<noteq> [(teacher, 5), (parent, 2)]
   \<and> integer_rating ''3abc'' = None
   \<and> mean (rating_values (answers [response_of student ''3abc''])) = Finite 0
   \<and> averageRating (loadStats 0 1 [response_of student ''3abc''] []) = Finite 3"
proof -
  have l: "length example_responses = 10" by (rule ex_length)
  have m: "map (\<lambda>r. (Response.respondent_type r, response_value r)) (take 7 example_responses)
       = [(teacher, Some ''5''), (teacher, Some ''4''), (teacher, Some ''3''),
          (teacher, Some ''5''), (teacher, Some ''4''), (parent, Some ''2''),
          (parent, Some ''3'')]"
    by (simp add: example_responses_def example_rated_def response_of_def)
  have s: "rec_get (responsesByType (loadStats 0 10 example_responses [])) student = Some 3"
    "responsesByType (loadStats 0 10 example_responses []) \<noteq> [(teacher, 5), (parent, 2)]"
    by (simp_all add: ex_types rec_get_def)
  have i: "integer_rating ''3abc'' = None" by (simp add: integer_rating_def)
  have z: "mean (rating_values (answers [response_of student ''3abc''])) = Finite 0"
    by (simp add: answers_def response_of_def rating_values_def i mean_def)
  from l m s i z ex_lax show ?thesis by blast
qed

subsection \<open>Completion rates\<close>

lemma completion_step_eq:
  "completion_step tc qb m t = rec_set m t (completion_value (get_or tc t 0) (get_or qb t (Suc 0)))"
  by (simp add: completion_step_def completion_value_def Let_def)

lemma rec_get_foldl_completion:
  "rec_get (foldl (completion_step tc qb) m ks) t =
     (if t \<in> set ks then Some (completion_value (get_or tc t 0) (get_or qb t (Suc 0)))
      else rec_get m t)"
proof (induction ks arbitrary: m)
  case Nil
  then show ?case by simp
next
  case (Cons k ks)
  have step: "rec_get (completion_step tc qb m k) u =
          (if u = k then Some (completion_value (get_or tc k 0) (get_or qb k (Suc 0)))
           else rec_get m u)" for u
    by (simp add: completion_step_eq rec_get_def map_of_rec_set)
  show ?case
    by (simp add: Cons.IH step)
qed

lemma keys_counts:
  "set (Object_keys (foldl (\<lambda>m x. count_up m (f x)) [] xs)) = f ` set xs"
  using keys_foldl_count_up [of f "[]" xs] by (simp add: Object_keys_def)

lemma mem_image_count: "(t \<in> f ` set xs) = (count_of_type f xs t \<noteq> 0)"
  by (auto simp: count_of_type_def filter_empty_conv)

lemma get_or_counts_0:
  "get_or (foldl (\<lambda>m x. count_up m (f x)) [] xs) t 0 = count_of_type f xs t"
  by (simp add: get_or_zero rec_get_counts)

lemma get_or_counts_1:
  "get_or (foldl (\<lambda>m x. count_up m (f x)) [] xs) t (Suc 0) =
     max (count_of_type f xs t) (Suc 0)"
  by (simp add: get_or_def rec_get_counts)

lemma completionRate_loadStats:
  "rec_get (completionRate (loadStats qc rc rs qs)) t =
     (if count_of_type Question.respondent_type qs t = 0 then None
      else Some (completion_value (count_of_type Response.respondent_type rs t)
                   (max (count_of_type Question.respondent_type qs t) 1)))"
  by (simp add: loadStats_def split_def Let_def rec_get_foldl_completion typeCount_of_def
      questionsByType_of_def keys_counts mem_image_count get_or_counts_0 get_or_counts_1
      rec_get_Nil del: max.absorb1 max.absorb2 max.absorb3 max.absorb4)

lemma keys_present:
  "(rec_get (questionsByType_of qs) t \<noteq> None) = (count_of_type Question.respondent_type qs t \<noteq> 0)"
  by (simp add: questionsByType_of_def rec_get_counts)

lemma divisor_nonzero: "get_or m t (Suc 0) \<noteq> 0"
  by (simp add: get_or_def split: option.splits)

lemma floor_close:
  fixes s t :: real
  assumes "\<bar>s - t\<bar> < 1"
  shows "\<bar>\<lfloor>s\<rfloor> - \<lfloor>t\<rfloor>\<bar> \<le> 1"
proof -
  have st: "s \<le> t + 1" "t \<le> s + 1" using assms by linarith+
  have "\<lfloor>s\<rfloor> \<le> \<lfloor>t + 1\<rfloor>" using st(1) by (rule floor_mono)
  moreover have "\<lfloor>t\<rfloor> \<le> \<lfloor>s + 1\<rfloor>" using st(2) by (rule floor_mono)
  moreover have "\<lfloor>t + 1\<rfloor> = \<lfloor>t\<rfloor> + 1" "\<lfloor>s + 1\<rfloor> = \<lfloor>s\<rfloor> + 1" by simp_all
  ultimately show ?thesis by linarith
qed

lemma inverse_unit:
  "1 / (2::real) powi (e - 52) = 2 powi (52 - e)"
  using power_int_minus_divide [of "2::real" "e - 52"] by simp

text \<open>
  The value the code computes for no more responses than questions: the two roundings
  keep the quotient in [0,1] and the product in [0,100], and move the product by less
  than 1/2.
\<close>

lemma completion_value_bounds:
  assumes "answered \<le> asked" and "asked \<noteq> 0"
  shows "\<exists>k::int. completion_value answered asked = Finite (of_int k) \<and> 0 \<le> k \<and> k \<le> 100
           \<and> \<bar>k - round (real answered / real asked * 100)\<bar> \<le> 1"
proof -
  let ?x = "real answered / real asked"
  have x: "0 \<le> ?x" "?x \<le> 1" using assms by simp_all
  have one: "(1::real) < double_overflow" "(100::real) < double_overflow"
    by (simp_all add: double_overflow_def)
  have ex: "double_exponent ?x \<le> 0"
    using x by (intro double_exponent_le) simp_all
  then have "(2::real) powi (52 - double_exponent ?x) \<in> \<int>" by (intro powi_Ints) simp
  then have "1 / (2::real) powi (double_exponent ?x - 52) \<in> \<int>"
    by (simp only: inverse_unit)
  from to_double_bounded [OF x(1) x(2) this one(1)]
  obtain y1 where y1: "to_double ?x = Finite y1" "0 \<le> y1" "y1 \<le> 1" by blast
  have err1: "\<bar>y1 - ?x\<bar> \<le> 2 powi (- 53)"
  proof -
    have "\<bar>y1 - ?x\<bar> \<le> 2 powi (double_exponent ?x - 53)" using y1(1) by (rule to_double_error)
    also have "\<dots> \<le> 2 powi (- 53)" using ex by (intro power_int_increasing) simp_all
    finally show ?thesis .
  qed
  let ?p = "y1 * 100"
  have p: "0 \<le> ?p" "?p \<le> 100" using y1 by simp_all
  have ep: "double_exponent ?p \<le> 7"
    using p by (intro double_exponent_le) simp_all
  then have "(2::real) powi (52 - double_exponent ?p) \<in> \<int>" by (intro powi_Ints) simp
  then have "100 * (1 / (2::real) powi (double_exponent ?p - 52)) \<in> \<int>"
    unfolding inverse_unit by (intro Ints_mult) simp_all
  then have "100 / (2::real) powi (double_exponent ?p - 52) \<in> \<int>" by simp
  from to_double_bounded [OF p(1) p(2) this one(2)]
  obtain y2 where y2: "to_double ?p = Finite y2" "0 \<le> y2" "y2 \<le> 100" by blast
  have err2: "\<bar>y2 - ?p\<bar> \<le> 2 powi (- 46)"
  proof -
    have "\<bar>y2 - ?p\<bar> \<le> 2 powi (double_exponent ?p - 53)" using y2(1) by (rule to_double_error)
    also have "\<dots> \<le> 2 powi (- 46)" using ep by (intro power_int_increasing) simp_all
    finally show ?thesis .
  qed
  have v: "completion_value answered asked = Finite (of_int \<lfloor>y2 + 1 / 2\<rfloor>)"
    using assms(2) y1(1) y2(1) by (simp add: completion_value_def)
  have k0: "0 \<le> \<lfloor>y2 + 1 / 2\<rfloor>" using y2(2) by (simp add: zero_le_floor)
  have "y2 + 1 / 2 < 101" using y2(3) by simp
  then have "\<lfloor>y2 + 1 / 2\<rfloor> < 101" by (simp add: floor_less_iff)
  then have k100: "\<lfloor>y2 + 1 / 2\<rfloor> \<le> 100" by simp
  have "?p - ?x * 100 = (y1 - ?x) * 100" by (simp add: algebra_simps)
  then have "\<bar>?p - ?x * 100\<bar> = 100 * \<bar>y1 - ?x\<bar>" by (simp only: abs_mult) simp
  with err1 have "\<bar>?p - ?x * 100\<bar> \<le> 100 * 2 powi (- 53)" by simp
  with err2 have "\<bar>y2 - ?x * 100\<bar> \<le> 2 powi (- 46) + 100 * 2 powi (- 53)" by linarith
  also have "\<dots> < (1::real)" by simp
  finally have "\<bar>(y2 + 1 / 2) - (?x * 100 + 1 / 2)\<bar> < 1" by simp
  then have "\<bar>\<lfloor>y2 + 1 / 2\<rfloor> - \<lfloor>?x * 100 + 1 / 2\<rfloor>\<bar> \<le> 1" by (rule floor_close)
  then have close: "\<bar>\<lfloor>y2 + 1 / 2\<rfloor> - round (?x * 100)\<bar> \<le> 1" by (simp add: round_def)
  from v k0 k100 close show ?thesis by blast
qed

lemma to_double_half: "to_double (1 / 2) = Finite (1 / 2)"
  using to_double_nearest [of "1 / 2" "- 1" 4503599627370496]
  by (simp add: double_overflow_def)

lemma to_double_23_40: "to_double (23 / 40) = Finite (5179139571476070 / 2 ^ 53)"
  using to_double_nearest [of "23 / 40" "- 1" 5179139571476070]
  by (simp add: double_overflow_def)

lemma to_double_23_40_100:
  "to_double (5179139571476070 / 2 ^ 53 * 100) = Finite (8092405580431359 / 2 ^ 47)"
  using to_double_nearest [of "5179139571476070 / 2 ^ 53 * 100" 5 8092405580431359]
  by (simp add: double_overflow_def)

lemma completion_value_23_40: "completion_value 23 40 = Finite 57"
proof -
  have "js_div (Finite (real 23)) (Finite (real 40)) = Finite (5179139571476070 / 2 ^ 53)"
    using to_double_23_40 by simp
  then have "js_mul (js_div (Finite (real 23)) (Finite (real 40))) (Finite 100)
               = Finite (8092405580431359 / 2 ^ 47)"
    using to_double_23_40_100 by simp
  then show ?thesis unfolding completion_value_def by simp
qed

lemma completion_value_2_4: "completion_value 2 4 = Finite 50"
proof -
  have "js_div (Finite (real 2)) (Finite (real 4)) = Finite (1 / 2)"
    using to_double_half by simp
  moreover have "to_double (real 50) = Finite (real 50)" by (rule to_double_of_nat) simp
  ultimately have "js_mul (js_div (Finite (real 2)) (Finite (real 4))) (Finite 100) = Finite 50"
    by simp
  then show ?thesis unfolding completion_value_def by simp
qed

subsection \<open>The claim on the completion rate\<close>

text \<open>
  C4, as amended. The completion rate has an entry exactly for the respondent types
  that have a question (the keys of \<open>questionsByType\<close>); the entry is \<open>Math.round\<close> of
  responses over \<open>max questions 1\<close> times 100, the division and the multiplication
  each rounding to a double; the divisor is never 0; and when the type has no more
  responses than questions the entry is an integer from 0 to 100 that differs from the
  percentage rounded exactly by at most 1.
\<close>

theorem completionRate_per_type:
  "rec_get (completionRate (loadStats qc rc rs qs)) t =
     (if count_of_type Question.respondent_type qs t = 0 then None
      else Some (Math_round
             (js_mul
                (js_div (Finite (real (count_of_type Response.respondent_type rs t)))
                   (Finite (real (max (count_of_type Question.respondent_type qs t) 1))))
                (Finite 100))))
   \<and> (rec_get (completionRate (loadStats qc rc rs qs)) t \<noteq> None)
       = (rec_get (questionsByType_of qs) t \<noteq> None)
   \<and> get_or (questionsByType_of qs) t 1 \<noteq> 0
   \<and> (count_of_type Response.respondent_type rs t
         \<le> count_of_type Question.respondent_type qs t \<longrightarrow>
       (\<forall>v. rec_get (completionRate (loadStats qc rc rs qs)) t = Some v \<longrightarrow>
          (\<exists>k::int. v = Finite (of_int k) \<and> 0 \<le> k \<and> k \<le> 100
             \<and> \<bar>k - round (real (count_of_type Response.respondent_type rs t)
                            / real (max (count_of_type Question.respondent_type qs t) 1)
                            * 100)\<bar> \<le> 1)))"
proof -
  let ?a = "count_of_type Response.respondent_type rs t"
  let ?q = "count_of_type Question.respondent_type qs t"
  have eq0: "rec_get (completionRate (loadStats qc rc rs qs)) t =
     (if ?q = 0 then None else Some (completion_value ?a (max ?q 1)))"
    by (rule completionRate_loadStats)
  then have eq: "rec_get (completionRate (loadStats qc rc rs qs)) t =
     (if ?q = 0 then None
      else Some (Math_round
             (js_mul (js_div (Finite (real ?a)) (Finite (real (max ?q 1)))) (Finite 100))))"
    by (simp only: completion_value_def)
  have dom: "(rec_get (completionRate (loadStats qc rc rs qs)) t \<noteq> None)
       = (rec_get (questionsByType_of qs) t \<noteq> None)"
    by (simp only: eq0 keys_present) simp
  have div: "get_or (questionsByType_of qs) t 1 \<noteq> 0"
    using divisor_nonzero [of "questionsByType_of qs" t] by simp
  have bounds: "\<exists>k::int. v = Finite (of_int k) \<and> 0 \<le> k \<and> k \<le> 100
                  \<and> \<bar>k - round (real ?a / real (max ?q 1) * 100)\<bar> \<le> 1"
    if le: "?a \<le> ?q" and v: "rec_get (completionRate (loadStats qc rc rs qs)) t = Some v" for v
  proof -
    from v eq0 have q: "?q \<noteq> 0" by (auto split: if_splits)
    then have m: "max ?q 1 = ?q" by simp
    from v eq0 q m have "v = completion_value ?a ?q" by simp
    with completion_value_bounds [OF le q] m show ?thesis by simp
  qed
  from eq dom div bounds show ?thesis by blast
qed

theorem completionRate_per_type_witness:
  "count_of_type Response.respondent_type example_responses parent
     \<le> count_of_type Question.respondent_type example_questions parent
   \<and> rec_get (completionRate (loadStats 4 10 example_responses example_questions)) parent
       = Some (Finite 50)
   \<and> rec_get (completionRate (loadStats 4 10 example_responses example_questions)) teacher
       = None"
proof -
  have c: "count_of_type Response.respondent_type example_responses parent = 2"
    "count_of_type Question.respondent_type example_questions parent = 4"
    "count_of_type Question.respondent_type example_questions teacher = 0"
    by (simp_all add: count_of_type_def example_responses_def example_rated_def
          example_questions_def response_of_def question_of_def)
  have v: "Math_round (js_mul (js_div (Finite (real 2)) (Finite (real (max 4 1)))) (Finite 100))
             = Finite 50"
    using completion_value_2_4 by (simp add: completion_value_def)
  from completionRate_per_type [of 4 10 example_responses example_questions parent]
       completionRate_per_type [of 4 10 example_responses example_questions teacher]
  show ?thesis by (simp only: c v) simp
qed

text \<open>
  C4 as it was stated, with the percentage rounded exactly, fails for a type with 23
  responses on 40 questions: 23/40 times 100 is 57.5, which rounds to 58, and the code
  computes 57, since the double nearest to 23/40 times 100 is below 57.5.
\<close>

theorem completionRate_23_of_40_counterexample:
  "count_of_type Response.respondent_type responses_23 teacher = 23
   \<and> count_of_type Question.respondent_type questions_40 teacher = 40
   \<and> round (real 23 / real (max 40 1) * 100) = 58
   \<and> rec_get (completionRate (loadStats 40 23 responses_23 questions_40)) teacher
       = Some (Finite 57)"
proof -
  have c: "count_of_type Response.respondent_type responses_23 teacher = 23"
    "count_of_type Question.respondent_type questions_40 teacher = 40"
    by (simp_all add: count_of_type_def responses_23_def questions_40_def response_of_def
          question_of_def)
  have r: "round (real 23 / real (max 40 1) * 100) = 58" by (simp add: round_def)
  have "rec_get (completionRate (loadStats 40 23 responses_23 questions_40)) teacher
          = Some (completion_value 23 40)"
    by (simp add: completionRate_loadStats c)
  with c r completion_value_23_40 show ?thesis by simp
qed

section \<open>Properties of the parsing block\<close>

lemma jsonMatch_span:
  assumes "CHR ''{'' \<notin> set pre" and "CHR ''}'' \<notin> set trail"
  shows "jsonMatch (pre @ CHR ''{'' # body @ CHR ''}'' # trail) = Some (CHR ''{'' # body @ [CHR ''}''])"
proof -
  have d1: "dropWhile (\<lambda>c. c \<noteq> CHR ''{'') (pre @ CHR ''{'' # body @ CHR ''}'' # trail)
              = CHR ''{'' # body @ CHR ''}'' # trail"
    using assms(1) by (subst dropWhile_append2) auto
  have d2: "dropWhile (\<lambda>c. c \<noteq> CHR ''}'') (rev (body @ CHR ''}'' # trail))
              = CHR ''}'' # rev body"
  proof -
    have "dropWhile (\<lambda>c. c \<noteq> CHR ''}'') (rev trail @ CHR ''}'' # rev body)
            = dropWhile (\<lambda>c. c \<noteq> CHR ''}'') (CHR ''}'' # rev body)"
      using assms(2) by (subst dropWhile_append2) auto
    then show ?thesis by simp
  qed
  show ?thesis
    unfolding jsonMatch_def d1 using d2 by simp
qed

lemma jsonMatch_Some_span:
  assumes "jsonMatch raw = Some m"
  shows "\<exists>pre mid post. raw = pre @ CHR ''{'' # mid @ CHR ''}'' # post"
proof -
  obtain b rest where d: "dropWhile (\<lambda>c. c \<noteq> CHR ''{'') raw = b # rest"
    and r: "CHR ''}'' \<in> set rest"
    using assms by (auto simp: jsonMatch_def split: list.splits if_splits)
  from d have b: "b = CHR ''{''"
    using hd_dropWhile [of "\<lambda>c. c \<noteq> CHR ''{''" raw] by simp
  from r obtain mid post where rest: "rest = mid @ CHR ''}'' # post"
    by (auto dest: split_list)
  have "raw = takeWhile (\<lambda>c. c \<noteq> CHR ''{'') raw @ dropWhile (\<lambda>c. c \<noteq> CHR ''{'') raw"
    by simp
  with d b rest have "raw = takeWhile (\<lambda>c. c \<noteq> CHR ''{'') raw @ CHR ''{'' # mid @ CHR ''}'' # post"
    by simp
  then show ?thesis by blast
qed

lemma jsonMatch_span_Some:
  "jsonMatch (pre @ CHR ''{'' # mid @ CHR ''}'' # post) \<noteq> None"
proof (cases "\<forall>x\<in>set pre. x \<noteq> CHR ''{''")
  case True
  then have "dropWhile (\<lambda>c. c \<noteq> CHR ''{'') (pre @ CHR ''{'' # mid @ CHR ''}'' # post)
               = CHR ''{'' # mid @ CHR ''}'' # post"
    by (simp add: dropWhile_append)
  then show ?thesis by (simp add: jsonMatch_def)
next
  case False
  then have ne: "dropWhile (\<lambda>c. c \<noteq> CHR ''{'') pre \<noteq> []" by auto
  then obtain b rest where br: "dropWhile (\<lambda>c. c \<noteq> CHR ''{'') pre = b # rest"
    by (cases "dropWhile (\<lambda>c. c \<noteq> CHR ''{'') pre") auto
  from False br
  have "dropWhile (\<lambda>c. c \<noteq> CHR ''{'') (pre @ CHR ''{'' # mid @ CHR ''}'' # post)
          = b # rest @ CHR ''{'' # mid @ CHR ''}'' # post"
    by (simp add: dropWhile_append)
  then show ?thesis by (simp add: jsonMatch_def)
qed

lemma jsonMatch_None:
  "(\<forall>pre mid post. raw \<noteq> pre @ CHR ''{'' # mid @ CHR ''}'' # post) \<Longrightarrow> jsonMatch raw = None"
  using jsonMatch_Some_span [of raw] by (cases "jsonMatch raw") auto

lemma no_span_no_braces: "CHR ''{'' \<notin> set raw \<Longrightarrow> raw \<noteq> pre @ CHR ''{'' # mid @ CHR ''}'' # post"
  by auto

text \<open>
  C7. Let the model's answer be a preamble, the JSON text of a payload and a trailer,
  with no brace in the preamble or the trailer. Then the match is the widest span between
  braces, from the first opening to the last closing one, which is the JSON text, and
  parsing recovers the payload. \<open>JSON.stringify\<close> and \<open>JSON.parse\<close> belong to the
  runtime: that the text of an object is enclosed in braces and that parsing reads it
  back are the two hypotheses on them.
\<close>

theorem parser_round_trip:
  assumes parse: "JSON_parse (JSON_stringify P) = Inr P"
    and object: "JSON_stringify P = CHR ''{'' # body @ [CHR ''}'']"
    and pre: "CHR ''{'' \<notin> set preamble" "CHR ''}'' \<notin> set preamble"
    and trail: "CHR ''{'' \<notin> set trailing" "CHR ''}'' \<notin> set trailing"
  shows "jsonMatch (preamble @ JSON_stringify P @ trailing) = Some (JSON_stringify P)
         \<and> parseStructuredOutput JSON_parse (preamble @ JSON_stringify P @ trailing) = Inr P"
proof -
  have m: "jsonMatch (preamble @ JSON_stringify P @ trailing) = Some (JSON_stringify P)"
    using jsonMatch_span [OF pre(1) trail(2), of body] by (simp add: object)
  then show ?thesis by (simp add: parseStructuredOutput_def parse)
qed

lemma example_json_shape: "example_stringify P = CHR ''{'' # butlast (tl example_json) @ [CHR ''}'']"
  by (simp add: example_stringify_def example_json_def)

theorem parser_round_trip_witness:
  "example_parse (example_stringify example_payload) = Inr example_payload
   \<and> parseStructuredOutput example_parse example_output = Inr example_payload"
proof -
  have p: "example_parse (example_stringify example_payload) = Inr example_payload"
    by (simp add: example_parse_def example_stringify_def)
  have o: "example_output = ''Here is the report: '' @ example_stringify example_payload @ '' I hope this helps.''"
    by (simp add: example_output_def example_stringify_def)
  have "parseStructuredOutput example_parse
          (''Here is the report: '' @ example_stringify example_payload @ '' I hope this helps.'')
        = Inr example_payload"
    using parser_round_trip [of example_parse example_stringify example_payload
        "butlast (tl example_json)" "''Here is the report: ''" "'' I hope this helps.''"]
      p example_json_shape [of example_payload]
    by simp
  with p o show ?thesis by simp
qed

text \<open>
  C8. When the text has no opening brace followed later by a closing one, the parsing
  block fails with the error "no JSON can be extracted", whatever \<open>JSON.parse\<close> is,
  and returns no payload; so it does on the text "no braces here".
\<close>

theorem parser_fails_without_braces:
  assumes "\<forall>pre mid post. raw \<noteq> pre @ CHR ''{'' # mid @ CHR ''}'' # post"
  shows "parseStructuredOutput JSON_parse raw = Inl (Error ''Error'' msg_no_json)
         \<and> parseStructuredOutput JSON_parse ''no braces here'' = Inl (Error ''Error'' msg_no_json)"
proof -
  have "jsonMatch raw = None" using assms by (rule jsonMatch_None)
  moreover have "jsonMatch ''no braces here'' = None" by (simp add: jsonMatch_def)
  ultimately show ?thesis by (simp add: parseStructuredOutput_def)
qed

theorem parser_fails_without_braces_witness:
  "(\<forall>pre mid post. ''} closing before { opening'' \<noteq> pre @ CHR ''{'' # mid @ CHR ''}'' # post)
   \<and> parseStructuredOutput example_parse ''} closing before { opening''
       = Inl (Error ''Error'' msg_no_json)"
proof -
  have "jsonMatch ''} closing before { opening'' = None" by (simp add: jsonMatch_def)
  then have h: "\<forall>pre mid post. ''} closing before { opening'' \<noteq> pre @ CHR ''{'' # mid @ CHR ''}'' # post"
    using jsonMatch_span_Some by metis
  from h parser_fails_without_braces [OF h, of example_parse] show ?thesis by blast
qed

section \<open>Survey documents in the analysis\<close>

lemma stored_fields:
  "text_response (stored_response r) = Absent" "rating_response (stored_response r) = Absent"
  by (simp_all add: stored_response_def)

text \<open>
  C2. For the documents that a survey submission stores, the text filter of
  \<open>analyzeResponses\<close> keeps none and the rating filter keeps all of them, whatever
  the type of their questions: \<open>textResponses\<close> is empty and \<open>ratingResponses\<close> has
  one \<open>undefined\<close> entry for each response.
\<close>

theorem survey_responses_partition:
  "textResponses_of (map stored_response (responsesToInsert surveyLink sessionId answered qs)) = []
   \<and> ratingResponses_of (map stored_response (responsesToInsert surveyLink sessionId answered qs))
       = map rating_response (map stored_response (responsesToInsert surveyLink sessionId answered qs))
   \<and> length (ratingResponses_of (map stored_response (responsesToInsert surveyLink sessionId answered qs)))
       = length (responsesToInsert surveyLink sessionId answered qs)
   \<and> ratingResponses_of (map stored_response (responsesToInsert surveyLink sessionId answered qs))
       = replicate (length (responsesToInsert surveyLink sessionId answered qs)) Absent"
proof -
  have t: "textResponses_of (map stored_response xs) = []" for xs
    by (simp add: textResponses_of_def stored_fields filter_empty_conv)
  have f: "filter (\<lambda>r. rating_response r \<noteq> Null) (map stored_response xs) = map stored_response xs" for xs
    by (simp add: stored_fields filter_id_conv)
  have r: "ratingResponses_of (map stored_response xs) = map rating_response (map stored_response xs)" for xs
    unfolding ratingResponses_of_def f ..
  have s: "ratingResponses_of (map stored_response xs) = replicate (length xs) Absent" for xs
    unfolding r by (induction xs) (simp_all add: stored_fields)
  have l: "length (ratingResponses_of (map stored_response xs)) = length xs" for xs
    unfolding r by simp
  from t r s l show ?thesis by blast
qed

lemma example_insert:
  "responsesToInsert example_link ''s'' [(''q1'', ''4''), (''q2'', ''more clubs'')]
     [question_of parent ''q1'', (question_of parent ''q2'')\<lparr>question_type := text_type\<rparr>,
      question_of parent ''q3'']
   = [\<lparr> nr_project_id = ''p1'', nr_question_id = ''q1'', nr_respondent_type = parent,
        nr_response_value = Some ''4'', nr_session_id = ''s'' \<rparr>,
      \<lparr> nr_project_id = ''p1'', nr_question_id = ''q2'', nr_respondent_type = parent,
        nr_response_value = Some ''more clubs'', nr_session_id = ''s'' \<rparr>]"
  by (simp add: responsesToInsert_def example_link_def question_of_def rec_get_def)

theorem survey_responses_partition_witness:
  "length (responsesToInsert example_link ''s'' [(''q1'', ''4''), (''q2'', ''more clubs'')]
     [question_of parent ''q1'', (question_of parent ''q2'')\<lparr>question_type := text_type\<rparr>,
      question_of parent ''q3'']) = 2
   \<and> textResponses_of (map stored_response
        (responsesToInsert example_link ''s'' [(''q1'', ''4''), (''q2'', ''more clubs'')]
          [question_of parent ''q1'', (question_of parent ''q2'')\<lparr>question_type := text_type\<rparr>,
           question_of parent ''q3''])) = []
   \<and> ratingResponses_of (map stored_response
        (responsesToInsert example_link ''s'' [(''q1'', ''4''), (''q2'', ''more clubs'')]
          [question_of parent ''q1'', (question_of parent ''q2'')\<lparr>question_type := text_type\<rparr>,
           question_of parent ''q3''])) = [Absent, Absent]"
  using survey_responses_partition [of example_link "''s''" "[(''q1'', ''4''), (''q2'', ''more clubs'')]"
     "[question_of parent ''q1'', (question_of parent ''q2'')\<lparr>question_type := text_type\<rparr>,
      question_of parent ''q3'']"]
  by (simp add: example_insert stored_response_def)


section \<open>Errors of the two functions\<close>

lemma msg_nonempty:
  "msg_project_not_found \<noteq> []" "msg_no_responses \<noteq> []" "msg_no_json \<noteq> []"
  by (simp_all add: msg_project_not_found_def msg_no_responses_def msg_no_json_def)


text \<open>
  C9. A missing project identifier is answered with \<open>invalid-argument\<close>, as claimed.
  A project that does not exist, and for the analysis a project without responses, is
  not answered with \<open>not-found\<close>: the error is thrown inside the \<open>try\<close>, and the
  \<open>catch\<close> throws it again as \<open>internal\<close> with the text of the first after a prefix.
\<close>

theorem not_found_rethrown_as_internal:
  "analyzeResponses JSON_parse empty_db generated \<lparr> projectId = Val ''p1'' \<rparr>
     = Inl (HttpsError internal (analysis_error_prefix @ ''Error: '' @ msg_project_not_found))
   \<and> analyzeResponses JSON_parse (example_db \<lparr> responses := [] \<rparr>) generated
        \<lparr> projectId = Val ''p1'' \<rparr>
     = Inl (HttpsError internal (analysis_error_prefix @ ''Error: '' @ msg_no_responses))
   \<and> generateReport JSON_parse now empty_db generated \<lparr> projectId = Val ''p1'' \<rparr>
     = Inl (HttpsError internal (report_error_prefix @ ''Error: '' @ msg_project_not_found))
   \<and> analyzeResponses JSON_parse db generated \<lparr> projectId = Absent \<rparr>
     = Inl (HttpsError invalid_argument msg_project_id_required)
   \<and> generateReport JSON_parse now db generated \<lparr> projectId = Absent \<rparr>
     = Inl (HttpsError invalid_argument msg_project_id_required)"
  by (simp add: analyzeResponses_def analyzeResponses_try_def generateReport_def
        generateReport_try_def empty_db_def example_db_def responses_where_project_def
        msg_nonempty)

section \<open>The completion rate of the report\<close>

lemma report_completionRate_zero_questions:
  "report_completionRate n 0 = (if n = 0 then NaN else PosInfinity)"
  by (simp add: report_completionRate_def scale_inf_def)

lemma generateReport_statistics:
  assumes "generateReport JSON_parse now db generated data = Inr r"
    and "projectId data = Val pid"
  shows "rs_completionRate (statistics (report r))
           = report_completionRate (length (responses_where_project db pid))
               (length (questions_where_project db pid))"
  using assms
  by (auto simp: generateReport_def generateReport_try_def Let_def
           split: if_splits option.splits sum.splits)

text \<open>
  C10. When \<open>generateReport\<close> returns a report for a project without questions, the
  completion rate of the report was computed with the divisor 0: it is \<open>Infinity\<close> when
  the project has responses and \<open>NaN\<close> when it has none, and never a finite number.
\<close>

theorem completionRate_unguarded_division:
  assumes "generateReport JSON_parse now db generated data = Inr r"
    and "projectId data = Val pid"
    and "questions_where_project db pid = []"
  shows "rs_completionRate (statistics (report r))
           = (if responses_where_project db pid = [] then NaN else PosInfinity)
         \<and> \<not> isFinite (rs_completionRate (statistics (report r)))"
  using generateReport_statistics [OF assms(1,2)] assms(3)
  by (simp add: report_completionRate_zero_questions)

lemma example_match: "jsonMatch example_output = Some example_json"
  by (simp add: jsonMatch_def example_output_def example_json_def)

lemma example_parsed: "parseStructuredOutput example_parse example_output = Inr example_payload"
  by (simp add: parseStructuredOutput_def example_match example_parse_def)

lemma example_report:
  "generateReport example_parse now example_db (Inr example_output) \<lparr> projectId = Val ''p1'' \<rparr>
     = Inr \<lparr> success = True,
             report = \<lparr> title = JStr ''R'', generatedAt = now, sections = JArr [],
                        statistics = \<lparr> rs_totalResponses = 1, rs_averageRating = Finite 0,
                                       rs_completionRate = PosInfinity \<rparr> \<rparr> \<rparr>"
  by (simp add: generateReport_def generateReport_try_def example_parsed example_db_def
        responses_where_project_def questions_where_project_def example_payload_def
        or_json_def report_averageRating_def or_zero_def report_completionRate_zero_questions)

theorem completionRate_unguarded_division_witness:
  "questions_where_project example_db ''p1'' = []
   \<and> (\<exists>r. generateReport example_parse ''2025-01-01T00:00:00.000Z'' example_db
              (Inr example_output) \<lparr> projectId = Val ''p1'' \<rparr> = Inr r
          \<and> rs_completionRate (statistics (report r)) = PosInfinity)"
proof -
  have q: "questions_where_project example_db ''p1'' = []"
    by (simp add: questions_where_project_def example_db_def)
  have rs: "responses_where_project example_db ''p1'' \<noteq> []"
    by (simp add: responses_where_project_def example_db_def)
  obtain r where r: "generateReport example_parse ''2025-01-01T00:00:00.000Z'' example_db
              (Inr example_output) \<lparr> projectId = Val ''p1'' \<rparr> = Inr r"
    using example_report by blast
  have "rs_completionRate (statistics (report r)) = PosInfinity"
    using completionRate_unguarded_division [OF r _ q] rs by simp
  with q r show ?thesis by blast
qed


section \<open>Failures after the data was read\<close>

lemma generateReport_failure:
  assumes "map_of (projects db) pid = Some project" and "pid \<noteq> []"
    and "generated = Inl e \<or> (\<exists>text. generated = Inr text \<and> parseStructuredOutput JSON_parse text = Inl e)"
  shows "generateReport JSON_parse now db generated \<lparr> projectId = Val pid \<rparr>
           = Inl (HttpsError internal (report_error_prefix @ error_to_string e))"
  using assms by (auto simp: generateReport_def generateReport_try_def Let_def)

lemma catch_report:
  "st_report (generateReport_catch env msg st) =
     (if functions_unavailable (or_string msg client_default_error) then Some (demo_report env)
      else st_report st)"
  "st_error (generateReport_catch env msg st) = Some (or_string msg client_default_error)"
  by (simp_all add: generateReport_catch_def Let_def)

lemma demo_report_shape:
  "length (report_sections (demo_report env)) = 6" "report_title (demo_report env) \<noteq> []"
  by (simp_all add: demo_report_def Let_def client_title_suffix_def)

text \<open>
  C1, as amended. When the project exists and the generative service fails, or its answer
  has no JSON span or does not parse, \<open>generateReport\<close> returns no report: it ends
  with an \<open>internal\<close> error that carries the text of the failure. On the client the
  \<open>catch\<close> block puts the fixed report, with exactly six sections and a title that is
  not empty, in place only when the message of the error contains \<open>not-found\<close>,
  \<open>permission-denied\<close> or \<open>unauthenticated\<close>; otherwise it keeps the report as it
  was and shows the message.
\<close>

theorem report_failure_surfaces_internal:
  assumes "map_of (projects db) pid = Some project" and "pid \<noteq> []"
    and "generated = Inl e \<or> (\<exists>text. generated = Inr text \<and> parseStructuredOutput JSON_parse text = Inl e)"
  shows "generateReport JSON_parse now db generated \<lparr> projectId = Val pid \<rparr>
           = Inl (HttpsError internal (report_error_prefix @ error_to_string e))
         \<and> (functions_unavailable (or_string msg client_default_error) \<longrightarrow>
              st_report (generateReport_catch env msg st) = Some (demo_report env))
         \<and> (\<not> functions_unavailable (or_string msg client_default_error) \<longrightarrow>
              st_report (generateReport_catch env msg st) = st_report st
              \<and> st_error (generateReport_catch env msg st)
                  = Some (or_string msg client_default_error))
         \<and> length (report_sections (demo_report env)) = 6
         \<and> report_title (demo_report env) \<noteq> []"
  using generateReport_failure [OF assms] catch_report [of env msg st] demo_report_shape [of env]
  by simp

lemma internal_message_not_unavailable:
  "\<not> functions_unavailable (report_error_prefix @ ''Error: '' @ msg_no_json)"
  by (simp add: functions_unavailable_def report_error_prefix_def msg_no_json_def)

lemma no_braces_fails: "parseStructuredOutput P ''no braces here'' = Inl (Error ''Error'' msg_no_json)"
  by (simp add: parseStructuredOutput_def jsonMatch_def)

lemma example_project: "map_of (projects example_db) ''p1'' = Some \<lparr> pd_name = Val ''Evaluation'', pd_school_id = ''s1'' \<rparr>"
  by (simp add: example_db_def)

lemma malformed_output_internal:
  "generateReport example_parse now example_db (Inr ''no braces here'') \<lparr> projectId = Val ''p1'' \<rparr>
     = Inl (HttpsError internal (report_error_prefix @ ''Error: '' @ msg_no_json))"
  using generateReport_failure [OF example_project, of "Inr ''no braces here''" "Error ''Error'' msg_no_json" example_parse now]
    no_braces_fails [of example_parse]
  by (simp add: msg_nonempty)

text \<open>
  C1 as it was stated fails when the model answers "no braces here" for a project that
  has responses: the function ends with an \<open>internal\<close> error, and the client, starting
  without a report, still has none after its \<open>catch\<close> block.
\<close>

theorem malformed_output_no_report_counterexample:
  "responses_where_project example_db ''p1'' \<noteq> []
   \<and> generateReport example_parse ''2025-01-01T00:00:00.000Z'' example_db (Inr ''no braces here'')
        \<lparr> projectId = Val ''p1'' \<rparr>
       = Inl (HttpsError internal (report_error_prefix @ ''Error: '' @ msg_no_json))
   \<and> st_report (generateReport_catch example_env
         (rejection_message (HttpsError internal (report_error_prefix @ ''Error: '' @ msg_no_json)))
         initial_state) = None"
proof -
  have rs: "responses_where_project example_db ''p1'' \<noteq> []"
    by (simp add: responses_where_project_def example_db_def)
  have ne: "report_error_prefix @ ''Error: '' @ msg_no_json \<noteq> []" by simp
  have "st_report (generateReport_catch example_env
         (rejection_message (HttpsError internal (report_error_prefix @ ''Error: '' @ msg_no_json)))
         initial_state) = None"
    using internal_message_not_unavailable
    by (simp add: catch_report or_string_def initial_state_def)
  with rs malformed_output_internal show ?thesis by blast
qed

theorem report_failure_surfaces_internal_witness:
  "map_of (projects example_db) ''p1'' \<noteq> None
   \<and> parseStructuredOutput example_parse ''no braces here'' = Inl (Error ''Error'' msg_no_json)
   \<and> generateReport example_parse ''2025-01-01T00:00:00.000Z'' example_db (Inr ''no braces here'')
        \<lparr> projectId = Val ''p1'' \<rparr>
       = Inl (HttpsError internal (report_error_prefix @ ''Error: '' @ msg_no_json))
   \<and> functions_unavailable ''not-found''
   \<and> st_report (generateReport_catch example_env (Val ''not-found'') initial_state)
       = Some (demo_report example_env)"
proof -
  have g: "functions_unavailable (or_string (Val ''not-found'') client_default_error)"
    by (simp add: functions_unavailable_def or_string_def)
  have p: "Inr ''no braces here'' = Inl (Error ''Error'' msg_no_json)
       \<or> (\<exists>text. (Inr ''no braces here'' :: js_error + string) = Inr text
             \<and> parseStructuredOutput example_parse text = Inl (Error ''Error'' msg_no_json))"
    using no_braces_fails [of example_parse] by simp
  have n: "''p1'' \<noteq> []" by simp
  from report_failure_surfaces_internal [OF example_project n p,
        of "''2025-01-01T00:00:00.000Z''" "Val ''not-found''" example_env initial_state]
    g no_braces_fails [of example_parse] example_project
  show ?thesis by (simp add: msg_nonempty or_string_def)
qed

end
